theory Spec2Isabelle
  imports Complex_Main
begin

section \<open>Values, errors and external calls\<close>

text \<open>
  The client library (\<open>GovLand/src/lib/contracts.ts\<close>) and the edit dialog
  (\<open>src/modals/EditLandModal.tsx\<close>) are asynchronous TypeScript. Every function of the
  source that returns a promise is a function from the calls issued so far to a result
  and the calls issued afterwards; a rejected promise (a \<open>throw\<close>) is \<open>Inl\<close>.
  The three aggregation functions run one closure for each identifier, all at the same
  time; they are given for an order of the answers as well, and their promise may still
  be pending.
\<close>

type_synonym address = string
type_synonym cid = string
type_synonym signature = string

text \<open>What a \<open>throw\<close> carries: \<open>new Error(msg)\<close>, or the runtime's \<open>TypeError\<close>.\<close>

datatype js_error = Error string | TypeError string

text \<open>
  A value of TypeScript type \<open>any\<close>, as far as \<open>approvePurchase\<close> and the
  aggregation functions look at one: an object (a plain one, no array) is given by the text
  \<open>JSON.stringify\<close> returns for it, a number is a whole number.
\<close>

datatype js_value =
    JUndefined
  | JNull
  | JBoolean bool
  | JNumber int
  | JString string
  | JObject string

datatype signer = JsonRpcSigner nat

datatype contract = Contract address signer

datatype tx = TransactionResponse nat

datatype provider = BrowserProvider nat

type_synonym file_data = string

text \<open>
  A JavaScript number: the three non-finite values, or a finite binary64 value given by
  the rational it denotes (\<open>-0\<close> and \<open>0\<close> are both \<open>Finite 0\<close>: they
  compare and print alike).
\<close>

datatype js_number = NaN | PosInfinity | NegInfinity | Finite rat

text \<open>What ethers accepts where the contract expects a \<open>uint256\<close>.\<close>

datatype bignumberish = OfNumber js_number | OfBigint int | OfString string

record ws =
  signer :: signer
  contract :: contract
  userAddress :: address

text \<open>The calls that leave the module, with the arguments the source passes.\<close>

datatype call =
    GetWeb3ProviderAndSigner
  | GetAddress signer
  | TransferLandOwnership string address
  | TxWait tx
  | GetAuthMessage address
  | SignMessage signer "string option"
  | KavachTransferOwnership address cid address signature bool
  | UploadEncrypted file_data string address signature
  | Upload "(string \<times> string) list" string
  | RegisterLand address cid cid int
  | ListLandForSale string int
  | RequestToBuy string int
  | UpdateLandDetails int nat int
  | ReloadLands
  | OnClose
  | GetSigner provider
  | LandPrices bignumberish
  | GetOwnedLands address
  | GetAllLandIds
  | GetLand int
  | Fetch string
  | ResponseJson string

type_synonym 'a io = "call list \<Rightarrow> (js_error + 'a) \<times> call list"

definition await :: "call \<Rightarrow> js_error + 'a \<Rightarrow> 'a io" where
  "await c r tr = (r, tr @ [c])"

definition throw :: "js_error \<Rightarrow> 'a io" where
  "throw e tr = (Inl e, tr)"

definition return :: "'a \<Rightarrow> 'a io" where
  "return v tr = (Inr v, tr)"

definition sync :: "js_error + 'a \<Rightarrow> 'a io" where
  "sync r tr = (r, tr)"

definition andThen :: "'a io \<Rightarrow> ('a \<Rightarrow> 'b io) \<Rightarrow> 'b io" where
  "andThen m f tr = (case m tr of (Inl e, tr') \<Rightarrow> (Inl e, tr') | (Inr v, tr') \<Rightarrow> f v tr')"

text \<open>\<open>try { m } catch (error) { h error }\<close>\<close>

definition tryCatch :: "'a io \<Rightarrow> (js_error \<Rightarrow> 'a io) \<Rightarrow> 'a io" where
  "tryCatch m h tr = (case m tr of (Inl e, tr') \<Rightarrow> h e tr' | (Inr v, tr') \<Rightarrow> (Inr v, tr'))"

text \<open>Decimal text of a non-negative integer, and \<open>String(n)\<close> of an integer.\<close>

definition digit :: "int \<Rightarrow> char" where
  "digit d = char_of (48 + d)"

function digits :: "int \<Rightarrow> string" where
  "digits n = (if n < 10 then [digit n] else digits (n div 10) @ [digit (n mod 10)])"
  by pat_completeness auto
termination
  by (relation "measure nat") auto

declare digits.simps [simp del]

definition int_toString :: "int \<Rightarrow> string" where
  "int_toString i = (if i < 0 then CHR ''-'' # digits (- i) else digits i)"

text \<open>JavaScript truthiness and \<open>String(v)\<close>.\<close>

fun truthy :: "js_value \<Rightarrow> bool" where
  "truthy JUndefined = False"
| "truthy JNull = False"
| "truthy (JBoolean b) = b"
| "truthy (JNumber n) = (n \<noteq> 0)"
| "truthy (JString s) = (s \<noteq> [])"
| "truthy (JObject j) = True"

fun to_String :: "js_value \<Rightarrow> string" where
  "to_String JUndefined = ''undefined''"
| "to_String JNull = ''null''"
| "to_String (JBoolean b) = (if b then ''true'' else ''false'')"
| "to_String (JNumber n) = int_toString n"
| "to_String (JString s) = s"
| "to_String (JObject j) = ''[object Object]''"

text \<open>
  The message of \<open>new Error(typeof error === "object" ? JSON.stringify(error) : error)\<close>;
  \<open>typeof\<close> is "object" for an object and for \<open>null\<close>.
\<close>

fun error_message :: "js_value \<Rightarrow> string" where
  "error_message (JObject j) = j"
| "error_message JNull = ''null''"
| "error_message v = to_String v"

section \<open>Numbers and the exchange rate\<close>

definition RM_PER_ETH :: rat where
  "RM_PER_ETH = 4000"

definition pow2 :: "int \<Rightarrow> rat" where
  "pow2 e = (if 0 \<le> e then 2 ^ nat e else 1 / 2 ^ nat (- e))"

function bitlen :: "int \<Rightarrow> int" where
  "bitlen n = (if n \<le> 0 then 0 else 1 + bitlen (n div 2))"
  by pat_completeness auto
termination
  by (relation "measure nat") auto

declare bitlen.simps [simp del]

text \<open>The \<open>e\<close> with \<open>2 ^ e \<le> a < 2 ^ (e + 1)\<close>, for a positive \<open>a\<close>.\<close>

definition binade :: "rat \<Rightarrow> int" where
  "binade a =
     (let (n, d) = quotient_of a;
          e0 = bitlen n - bitlen d
      in if pow2 e0 \<le> a then e0 else e0 - 1)"

definition round_half_even :: "rat \<Rightarrow> int" where
  "round_half_even q =
     (let f = \<lfloor>q\<rfloor>; d = q - of_int f
      in if d < 1 / 2 then f else if 1 / 2 < d then f + 1 else if even f then f else f + 1)"

text \<open>
  Rounding a positive rational to binary64 (53 significant bits, least exponent -1022,
  nearest with ties to even); \<open>None\<close> is overflow.
\<close>

definition round64_mag :: "rat \<Rightarrow> rat option" where
  "round64_mag a =
     (let e = max (binade a) (- 1022);
          u = pow2 (e - 52);
          v = of_int (round_half_even (a / u)) * u
      in if pow2 1024 \<le> v then None else Some v)"

definition round64 :: "rat \<Rightarrow> js_number" where
  "round64 q =
     (if q = 0 then Finite 0
      else if 0 < q then (case round64_mag q of None \<Rightarrow> PosInfinity | Some v \<Rightarrow> Finite v)
      else (case round64_mag (- q) of None \<Rightarrow> NegInfinity | Some v \<Rightarrow> Finite (- v)))"

text \<open>\<open>x / RM_PER_ETH\<close>, \<open>x * RM_PER_ETH\<close> and \<open>x <= 0\<close> on numbers.\<close>

fun div_RM_PER_ETH :: "js_number \<Rightarrow> js_number" where
  "div_RM_PER_ETH (Finite q) = round64 (q / RM_PER_ETH)"
| "div_RM_PER_ETH x = x"

fun mul_RM_PER_ETH :: "js_number \<Rightarrow> js_number" where
  "mul_RM_PER_ETH (Finite q) = round64 (q * RM_PER_ETH)"
| "mul_RM_PER_ETH x = x"

fun le_zero :: "js_number \<Rightarrow> bool" where
  "le_zero NaN = False"
| "le_zero PosInfinity = False"
| "le_zero NegInfinity = True"
| "le_zero (Finite q) = (q \<le> 0)"

section \<open>The services the module calls\<close>

text \<open>
  The wallet provider (\<open>./provider\<close>), the ledger contract, the Kavach access-control
  service, the Lighthouse content store and its gateway, the dialog's callbacks and the
  library functions of the runtime and of ethers are outside the two source files. Each
  is a function from the arguments of the call to what the call returns or throws.
\<close>

record onchain =
  landId :: int
  status :: nat
  metadataCID :: cid

text \<open>
  The parsed body of a metadata document (\<open>jsonMeta\<close> in \<open>getMyLands\<close>,
  \<open>getYourLands\<close> and \<open>fetchAllLands\<close>): the properties of the object, each name
  once, with their values. Reading a property that the document does not have gives
  \<open>undefined\<close>.
\<close>

type_synonym jsonMeta = "(string \<times> js_value) list"

definition prop_of :: "jsonMeta \<Rightarrow> string \<Rightarrow> js_value" where
  "prop_of m name = (case map_of m name of None \<Rightarrow> JUndefined | Some v \<Rightarrow> v)"

text \<open>
  A \<open>fetch\<close> response: \<open>resp.ok\<close>, and what \<open>resp.json()\<close> gives or throws.
  \<open>None\<close> is a body that is falsy (\<open>null\<close>, \<open>false\<close>, 0, ""); \<open>Some m\<close> is a
  body that is truthy, with its properties (a truthy body that is no object has none of
  the properties the source reads).
\<close>

record response =
  ok :: bool
  json :: "js_error + jsonMeta option"

record env =
  getWeb3ProviderAndSigner :: "js_error + signer option"
  signer_getAddress :: "signer \<Rightarrow> js_error + address"
  signer_signMessage :: "signer \<Rightarrow> string option \<Rightarrow> js_error + signature"
  newBrowserProvider :: "js_error + provider"
  provider_getSigner :: "provider \<Rightarrow> js_error + signer"
  CONTRACT_ADDRESS :: address
  LIGHTHOUSE_API_KEY :: string
  contract_transferLandOwnership :: "string \<Rightarrow> address \<Rightarrow> js_error + tx"
  contract_registerLand :: "address \<Rightarrow> cid \<Rightarrow> cid \<Rightarrow> int \<Rightarrow> js_error + tx"
  contract_listLandForSale :: "string \<Rightarrow> int \<Rightarrow> js_error + tx"
  contract_requestToBuy :: "string \<Rightarrow> int \<Rightarrow> js_error + tx"
  contract_updateLandDetails :: "int \<Rightarrow> nat \<Rightarrow> int \<Rightarrow> js_error + tx"
  contract_landPrices :: "bignumberish \<Rightarrow> js_error + int"
  contract_getOwnedLands :: "address \<Rightarrow> js_error + int list"
  contract_getAllLandIds :: "js_error + int list"
  contract_getLand :: "int \<Rightarrow> js_error + onchain \<times> address \<times> cid"
  tx_wait :: "tx \<Rightarrow> js_error + unit"
  kavach_getAuthMessage :: "address \<Rightarrow> js_error + string option"
  kavach_transferOwnership ::
    "address \<Rightarrow> cid \<Rightarrow> address \<Rightarrow> signature \<Rightarrow> bool \<Rightarrow> js_error + js_value option"
  lighthouse_uploadEncrypted ::
    "file_data \<Rightarrow> string \<Rightarrow> address \<Rightarrow> signature \<Rightarrow> js_error + cid list"
  lighthouse_upload :: "(string \<times> string) list \<Rightarrow> string \<Rightarrow> js_error + cid"
  fetch :: "string \<Rightarrow> js_error + response"
  reloadLands :: "js_error + unit"
  onClose :: "js_error + unit"
  parseFloat :: "string \<Rightarrow> js_number"
  number_toString :: "js_number \<Rightarrow> string"
  BigInt :: "string \<Rightarrow> js_error + int"
  parseEther :: "string \<Rightarrow> js_error + int"
  formatEther :: "int \<Rightarrow> string"
  new_Date_toISOString :: string

section \<open>EditLandModal: statusToEnum and handleSave\<close>

datatype property_status = Active | ForSale | Approved | PendingApproval

datatype property_type = Residential | Commercial | Agricultural | Industrial

record property =
  property_id :: string
  titleNumber :: string
  owner :: string
  ownerAddress :: string
  location :: string
  coordinates :: string
  area :: string
  propertyType :: property_type
  registrationDate :: string
  lastTransfer :: string
  status :: property_status
  blockchainHash :: string
  surveyNumber :: string
  marketValue :: string
  encumbrances :: "string list"
  metadataCID :: string

fun statusToEnum :: "property_status \<Rightarrow> nat" where
  "statusToEnum Active = 0"
| "statusToEnum ForSale = 1"
| "statusToEnum PendingApproval = 2"
| "statusToEnum Approved = 3"

text \<open>
  The statuses the dialog's \<open>select\<close> offers for \<open>newStatus\<close>, which starts as \<open>Active\<close>.
\<close>

definition status_options :: "property_status list" where
  "status_options = [Active, ForSale]"

text \<open>
  \<open>handleSave\<close> of the dialog, for the \<open>contract\<close> and \<open>property\<close> props and the
  two state variables \<open>newStatus\<close> and \<open>newPrice\<close>. Its \<open>catch\<close> logs and returns.
\<close>

definition handleSave ::
  "env \<Rightarrow> contract option \<Rightarrow> property \<Rightarrow> property_status \<Rightarrow> string \<Rightarrow> unit io" where
  "handleSave e contract' property' newStatus newPrice =
     (case contract' of
        None \<Rightarrow> return ()
      | Some c \<Rightarrow>
          tryCatch
            (andThen (sync (BigInt e (property_id property'))) (\<lambda>lid.
               let ethValue = div_RM_PER_ETH (parseFloat e newPrice) in
               andThen (sync (parseEther e (number_toString e ethValue))) (\<lambda>priceWei.
               andThen (await (UpdateLandDetails lid (statusToEnum newStatus) priceWei)
                          (contract_updateLandDetails e lid (statusToEnum newStatus) priceWei)) (\<lambda>t.
               andThen (await (TxWait t) (tx_wait e t)) (\<lambda>_.
               andThen (await ReloadLands (reloadLands e)) (\<lambda>_.
               await OnClose (onClose e)))))))
            (\<lambda>err. return ()))"

section \<open>contracts.ts: connecting, listing, buying, approving\<close>

definition connectAccount :: "env \<Rightarrow> ws option io" where
  "connectAccount e =
     andThen (await GetWeb3ProviderAndSigner (getWeb3ProviderAndSigner e)) (\<lambda>w.
       case w of
         None \<Rightarrow> return None
       | Some s \<Rightarrow>
           andThen (await (GetAddress s) (signer_getAddress e s)) (\<lambda>a.
             return (Some \<lparr>signer = s, contract = Contract (CONTRACT_ADDRESS e) s,
                            userAddress = a\<rparr>)))"

text \<open>The message \<open>listingLand\<close> throws when the wallet is not connected (UTF-8).\<close>

definition connect_failed :: string where
  "connect_failed = ''MetaMask '' @ map char_of
     [0xE6, 0x8E, 0xA5, 0xE7, 0xB6, 0x9A, 0xE3, 0x81, 0xAB, 0xE5, 0xA4, 0xB1, 0xE6, 0x95, 0x97,
      0xE3, 0x81, 0x97, 0xE3, 0x81, 0xBE, 0xE3, 0x81, 0x97, 0xE3, 0x81, 0x9F, 0xE3, 0x80, 0x82 :: nat]"

text \<open>
  \<open>listingLand\<close>. The metadata document is given by the object \<open>JSON.stringify\<close> is
  applied to, its properties in order. \<open>uploadCertResp.data[0].Hash\<close> on an empty
  \<open>data\<close> reads a property of \<open>undefined\<close>.
\<close>

definition listingLand ::
  "env \<Rightarrow> string \<Rightarrow> string \<Rightarrow> string \<Rightarrow> file_data \<Rightarrow> string \<Rightarrow> tx io" where
  "listingLand e titleNumber' landType' priceRM' geranFile username' =
     andThen (connectAccount e) (\<lambda>c.
       case c of
         None \<Rightarrow> throw (Error connect_failed)
       | Some w \<Rightarrow>
           andThen (await (GetAuthMessage (userAddress w))
                      (kavach_getAuthMessage e (userAddress w))) (\<lambda>challenge.
           andThen (await (SignMessage (signer w) challenge)
                      (signer_signMessage e (signer w) challenge)) (\<lambda>sg.
           andThen (await (UploadEncrypted geranFile (LIGHTHOUSE_API_KEY e) (userAddress w) sg)
                      (lighthouse_uploadEncrypted e geranFile (LIGHTHOUSE_API_KEY e)
                         (userAddress w) sg)) (\<lambda>data.
           case data of
             [] \<Rightarrow> throw (TypeError ''Cannot read properties of undefined (reading 'Hash')'')
           | geranCid' # _ \<Rightarrow>
               let metadataObj =
                     [(''titleNumber'', titleNumber'),
                      (''landType'', landType'),
                      (''username'', username'),
                      (''area'', ''100 m2''),
                      (''geranCid'', geranCid'),
                      (''timestamp'', new_Date_toISOString e)]
               in
               andThen (await (Upload metadataObj (LIGHTHOUSE_API_KEY e))
                          (lighthouse_upload e metadataObj (LIGHTHOUSE_API_KEY e))) (\<lambda>publicCid.
               let rmValue = parseFloat e priceRM';
                   ethValue = div_RM_PER_ETH rmValue
               in
               if le_zero ethValue then throw (Error ''Price must be at least MYR 4000'')
               else
                 andThen (sync (parseEther e (number_toString e ethValue))) (\<lambda>priceWei.
                 await (RegisterLand (userAddress w) geranCid' publicCid priceWei)
                   (contract_registerLand e (userAddress w) geranCid' publicCid priceWei)))))))"

definition listLandForSale :: "env \<Rightarrow> string \<Rightarrow> string \<Rightarrow> tx io" where
  "listLandForSale e lid priceRM' =
     andThen (connectAccount e) (\<lambda>c.
       case c of
         None \<Rightarrow> throw (Error ''MetaMask not connected'')
       | Some w \<Rightarrow>
           let rmValue = parseFloat e priceRM';
               ethValue = div_RM_PER_ETH rmValue
           in
           if le_zero ethValue then throw (Error ''Price must be positive'')
           else
             andThen (sync (parseEther e (number_toString e ethValue))) (\<lambda>priceWei.
             await (ListLandForSale lid priceWei) (contract_listLandForSale e lid priceWei)))"

definition requestToBuyLand :: "env \<Rightarrow> string \<Rightarrow> string \<Rightarrow> tx io" where
  "requestToBuyLand e lid priceRM' =
     andThen (connectAccount e) (\<lambda>c.
       case c of
         None \<Rightarrow> throw (Error ''MetaMask not connected'')
       | Some w \<Rightarrow>
           let rmValue = parseFloat e priceRM';
               ethValue = div_RM_PER_ETH rmValue
           in
           if le_zero ethValue then throw (Error ''Invalid price'')
           else
             andThen (sync (parseEther e (number_toString e ethValue))) (\<lambda>priceWei.
             await (RequestToBuy lid priceWei) (contract_requestToBuy e lid priceWei)))"

definition signAuthMessage :: "env \<Rightarrow> address \<Rightarrow> signer \<Rightarrow> signature io" where
  "signAuthMessage e a s =
     andThen (await (GetAuthMessage a) (kavach_getAuthMessage e a)) (\<lambda>m.
       case m of
         None \<Rightarrow> throw (Error ''No Kavach auth challenge found'')
       | Some msg \<Rightarrow> await (SignMessage s (Some msg)) (signer_signMessage e s (Some msg)))"

text \<open>
  \<open>approvePurchase\<close>. For \<open>transferNFT?.error\<close> the response is \<open>None\<close> when it
  is \<open>null\<close> or \<open>undefined\<close>, otherwise \<open>Some\<close> of its \<open>error\<close> property.
\<close>

definition approvePurchase :: "env \<Rightarrow> string \<Rightarrow> address \<Rightarrow> cid \<Rightarrow> unit io" where
  "approvePurchase e lid buyerAddress privateCID =
     andThen (connectAccount e) (\<lambda>c.
       case c of
         None \<Rightarrow> throw (Error ''MetaMask not connected'')
       | Some w \<Rightarrow>
           andThen (await (TransferLandOwnership lid buyerAddress)
                      (contract_transferLandOwnership e lid buyerAddress)) (\<lambda>t.
           andThen (await (TxWait t) (tx_wait e t)) (\<lambda>_.
           andThen (signAuthMessage e (userAddress w) (signer w)) (\<lambda>sg.
           andThen (await (KavachTransferOwnership (userAddress w) privateCID buyerAddress sg True)
                      (kavach_transferOwnership e (userAddress w) privateCID buyerAddress sg True))
             (\<lambda>transferNFT.
               let err = (case transferNFT of None \<Rightarrow> JUndefined | Some v \<Rightarrow> v) in
               if truthy err then throw (Error (error_message err)) else return ())))))"

text \<open>
  \<open>fetchLandPrice\<close>: the whole body is inside \<open>try\<close>, and the \<open>catch\<close> returns "0".
  Creating the provider can throw; it is no call to the network.
\<close>

definition fetchLandPrice :: "env \<Rightarrow> js_number \<Rightarrow> string io" where
  "fetchLandPrice e lid =
     tryCatch
       (andThen (sync (newBrowserProvider e)) (\<lambda>p.
        andThen (await (GetSigner p) (provider_getSigner e p)) (\<lambda>s.
        andThen (await (LandPrices (OfNumber lid)) (contract_landPrices e (OfNumber lid))) (\<lambda>price.
        return (formatEther e price)))))
       (\<lambda>error. return ''0'')"

text \<open>The calls of the off-chain phase: the Kavach challenge, its signature, the regrant.\<close>

fun off_chain_call :: "call \<Rightarrow> bool" where
  "off_chain_call (GetAuthMessage a) = True"
| "off_chain_call (SignMessage s m) = True"
| "off_chain_call (KavachTransferOwnership a c b s f) = True"
| "off_chain_call c = False"

text \<open>The calls that go to the ledger contract or wait for its confirmation.\<close>

fun ledger_call :: "call \<Rightarrow> bool" where
  "ledger_call (TransferLandOwnership l b) = True"
| "ledger_call (RegisterLand a g p w) = True"
| "ledger_call (ListLandForSale l w) = True"
| "ledger_call (RequestToBuy l w) = True"
| "ledger_call (UpdateLandDetails l s w) = True"
| "ledger_call (LandPrices l) = True"
| "ledger_call (GetOwnedLands a) = True"
| "ledger_call GetAllLandIds = True"
| "ledger_call (GetLand i) = True"
| "ledger_call (TxWait t) = True"
| "ledger_call c = False"

section \<open>contracts.ts: the aggregation functions\<close>

text \<open>
  \<open>getMyLands\<close>, \<open>getYourLands\<close> and \<open>fetchAllLands\<close> map an asynchronous closure
  over the identifiers and wait for the promises with \<open>Promise.all\<close>. The closures are
  written like the other asynchronous functions; what \<open>map\<close> and \<open>Promise.all\<close> do
  with them follows below.
\<close>

definition gateway_url :: "cid \<Rightarrow> string" where
  "gateway_url c = ''https://gateway.lighthouse.storage/ipfs/'' @ c"

record myLand =
  landId :: string
  status :: nat
  address :: js_value
  description :: js_value

text \<open>
  \<open>YourLand\<close>. The fields that are copied from the metadata document are declared
  \<open>string\<close> and hold whatever the document has there.
\<close>

record yourLand =
  landId :: string
  status :: nat
  titleNumber :: js_value
  landType :: js_value
  username :: js_value
  priceRM :: js_value
  area :: js_value
  geranCid :: js_value
  geranUrl :: string
  timestamp :: js_value
  owner :: string
  metadataCID :: string



text \<open>
  The metadata fetch of \<open>getYourLands\<close> and \<open>fetchAllLands\<close>:
  \<open>try { resp = await fetch(url); if (resp.ok) jsonMeta = await resp.json() } catch {}\<close>.
\<close>

definition fetch_jsonMeta :: "env \<Rightarrow> cid \<Rightarrow> jsonMeta option io" where
  "fetch_jsonMeta e publicCID =
     tryCatch
       (andThen (await (Fetch (gateway_url publicCID)) (fetch e (gateway_url publicCID))) (\<lambda>resp.
          if ok resp then await (ResponseJson (gateway_url publicCID)) (json resp)
          else return None))
       (\<lambda>err. return None)"

definition getYourLands_fetchPromise :: "env \<Rightarrow> int \<Rightarrow> yourLand io" where
  "getYourLands_fetchPromise e idBigint =
     andThen (await (GetLand idBigint) (contract_getLand e idBigint))
       (\<lambda>(landOnchain, ownerAddr, publicCID).
     andThen (fetch_jsonMeta e publicCID) (\<lambda>jsonMeta'.
       case jsonMeta' of
         None \<Rightarrow>
           return \<lparr>yourLand.landId = int_toString idBigint,
                   yourLand.status = onchain.status landOnchain,
                   yourLand.titleNumber = JString '''',
                   yourLand.landType = JString '''',
                   yourLand.username = JString '''',
                   yourLand.priceRM = JString '''',
                   yourLand.area = JString '''',
                   yourLand.geranCid = JString '''',
                   yourLand.geranUrl = '''',
                   yourLand.timestamp = JString '''',
                   yourLand.owner = ownerAddr,
                   yourLand.metadataCID = onchain.metadataCID landOnchain\<rparr>
       | Some m \<Rightarrow>
           return \<lparr>yourLand.landId = int_toString idBigint,
                   yourLand.status = onchain.status landOnchain,
                   yourLand.titleNumber = prop_of m ''titleNumber'',
                   yourLand.landType = prop_of m ''landType'',
                   yourLand.username = prop_of m ''username'',
                   yourLand.priceRM = prop_of m ''priceRM'',
                   yourLand.area = prop_of m ''area'',
                   yourLand.geranCid = prop_of m ''geranCid'',
                   yourLand.geranUrl = gateway_url (to_String (prop_of m ''geranCid'')),
                   yourLand.timestamp = prop_of m ''timestamp'',
                   yourLand.owner = ownerAddr,
                   yourLand.metadataCID = onchain.metadataCID landOnchain\<rparr>))"

text \<open>
  \<open>x.toFixed(2)\<close>. For a finite \<open>x\<close> below \<open>10 ^ 21\<close> in magnitude the text is the
  sign, then the integer \<open>n\<close> for which \<open>n / 100\<close> is nearest to the magnitude (the larger
  of two), written with a point before its last two digits; otherwise it is the text of
  \<open>x.toString()\<close>.
\<close>

definition cents :: "rat \<Rightarrow> int" where
  "cents q = \<lfloor>q * 100 + 1 / 2\<rfloor>"

definition fixed2_text :: "int \<Rightarrow> string" where
  "fixed2_text n = digits (n div 100) @ CHR ''.'' # [digit (n mod 100 div 10), digit (n mod 10)]"

definition toFixed2 :: "env \<Rightarrow> js_number \<Rightarrow> string" where
  "toFixed2 e x =
     (case x of
        Finite q \<Rightarrow>
          if 10 ^ 21 \<le> \<bar>q\<bar> then number_toString e x
          else if q < 0 then CHR ''-'' # fixed2_text (cents (- q))
          else fixed2_text (cents q)
      | _ \<Rightarrow> number_toString e x)"

text \<open>The price shown by \<open>fetchAllLands\<close>: wei to ETH text, to a number, to RM, to two decimals.\<close>

definition priceRM_of_wei :: "env \<Rightarrow> int \<Rightarrow> string" where
  "priceRM_of_wei e priceWei =
     (let ethValue = parseFloat e (formatEther e priceWei);
          PriceRM = mul_RM_PER_ETH ethValue
      in toFixed2 e PriceRM)"

definition fetchAllLands_fetchPromise :: "env \<Rightarrow> int \<Rightarrow> yourLand io" where
  "fetchAllLands_fetchPromise e idBigint =
     andThen (await (GetLand idBigint) (contract_getLand e idBigint))
       (\<lambda>(landOnchain, ownerAddr, publicCID).
     andThen (await (LandPrices (OfBigint idBigint)) (contract_landPrices e (OfBigint idBigint)))
       (\<lambda>priceWei.
     andThen (fetch_jsonMeta e publicCID) (\<lambda>jsonMeta'.
       case jsonMeta' of
         None \<Rightarrow>
           return \<lparr>yourLand.landId = int_toString idBigint,
                   yourLand.status = onchain.status landOnchain,
                   yourLand.titleNumber = JString '''',
                   yourLand.landType = JString '''',
                   yourLand.username = JString '''',
                   yourLand.priceRM = JString (priceRM_of_wei e priceWei),
                   yourLand.area = JString '''',
                   yourLand.geranCid = JString '''',
                   yourLand.geranUrl = '''',
                   yourLand.timestamp = JString '''',
                   yourLand.owner = ownerAddr,
                   yourLand.metadataCID = onchain.metadataCID landOnchain\<rparr>
       | Some m \<Rightarrow>
           return \<lparr>yourLand.landId = int_toString idBigint,
                   yourLand.status = onchain.status landOnchain,
                   yourLand.titleNumber = prop_of m ''titleNumber'',
                   yourLand.landType = prop_of m ''landType'',
                   yourLand.username = prop_of m ''username'',
                   yourLand.priceRM = JString (priceRM_of_wei e priceWei),
                   yourLand.area = prop_of m ''area'',
                   yourLand.geranCid = prop_of m ''geranCid'',
                   yourLand.geranUrl = gateway_url (to_String (prop_of m ''geranCid'')),
                   yourLand.timestamp = prop_of m ''timestamp'',
                   yourLand.owner = ownerAddr,
                   yourLand.metadataCID = onchain.metadataCID landOnchain\<rparr>)))"

text \<open>
  \<open>landIds.map(async (id) => ...)\<close> calls the closure for each identifier in turn, and a
  call of an asynchronous function runs its body up to the first \<open>await\<close> and returns a
  promise: after \<open>map\<close> every closure has issued its first call and none has been
  answered. From then on a closure runs when the call it waits for is answered: it issues
  its next call, or settles its promise. The answers of the services do not depend on the
  moment of a call, so a closure issues the calls, and settles with the result, that it
  has when it runs alone; the moments of the answers decide how the calls of different
  closures interleave and which promise settles first.

  A promise is \<open>Waiting\<close> for a call, with the calls its closure has still to issue
  and the result it will settle with, or \<open>Done\<close>.
\<close>

datatype 'a promise = Waiting "call list" "js_error + 'a" | Done "js_error + 'a"

definition call_async :: "'a io \<Rightarrow> 'a promise \<times> call list" where
  "call_async c =
     (case c [] of
        (r, []) \<Rightarrow> (Done r, [])
      | (r, x # xs) \<Rightarrow> (Waiting xs r, [x]))"

text \<open>
  The promises of the closures, the reason of the promise that rejected first, and the
  calls issued so far.
\<close>

record 'a fan_out =
  promises :: "'a promise list"
  first_rejection :: "js_error option"
  issued_calls :: "call list"

fun rejections :: "'a promise list \<Rightarrow> js_error list" where
  "rejections [] = []"
| "rejections (Done (Inl x) # ps) = x # rejections ps"
| "rejections (p # ps) = rejections ps"

definition map_async :: "'a io list \<Rightarrow> call list \<Rightarrow> 'a fan_out" where
  "map_async cs tr =
     \<lparr>promises = map (\<lambda>c. fst (call_async c)) cs,
      first_rejection =
        (case rejections (map (\<lambda>c. fst (call_async c)) cs) of [] \<Rightarrow> None | x # xs \<Rightarrow> Some x),
      issued_calls = tr @ concat (map (\<lambda>c. snd (call_async c)) cs)\<rparr>"

text \<open>The call that the \<open>k\<close>-th closure waits for is answered.\<close>

definition answer :: "'a fan_out \<Rightarrow> nat \<Rightarrow> 'a fan_out" where
  "answer st k =
     (if k < length (promises st)
      then (case promises st ! k of
              Waiting (x # xs) r \<Rightarrow>
                st\<lparr>promises := (promises st)[k := Waiting xs r],
                   issued_calls := issued_calls st @ [x]\<rparr>
            | Waiting [] r \<Rightarrow>
                st\<lparr>promises := (promises st)[k := Done r],
                   first_rejection :=
                     (case first_rejection st of
                        Some x \<Rightarrow> Some x
                      | None \<Rightarrow> (case r of Inl x \<Rightarrow> Some x | Inr v \<Rightarrow> None))\<rparr>
            | Done r \<Rightarrow> st)
      else st)"

fun fulfilled :: "'a promise list \<Rightarrow> 'a list option" where
  "fulfilled [] = Some []"
| "fulfilled (Done (Inr v) # ps) = map_option (Cons v) (fulfilled ps)"
| "fulfilled (p # ps) = None"

text \<open>
  \<open>Promise.all\<close>: rejected with the reason of the promise that rejected first in time,
  fulfilled with the values in the order of the promises once all are fulfilled, and
  pending (\<open>None\<close>) until then.
\<close>

definition Promise_all :: "'a fan_out \<Rightarrow> (js_error + 'a list) option" where
  "Promise_all st =
     (case first_rejection st of
        Some x \<Rightarrow> Some (Inl x)
      | None \<Rightarrow> map_option Inr (fulfilled (promises st)))"


definition getYourLands ::
  "env \<Rightarrow> address \<Rightarrow> nat list \<Rightarrow> call list \<Rightarrow> (js_error + yourLand list) option \<times> call list" where
  "getYourLands e userAddress' answers tr =
     (case contract_getOwnedLands e userAddress' of
        Inl err \<Rightarrow> (Some (Inl err), tr @ [GetOwnedLands userAddress'])
      | Inr landIds \<Rightarrow>
          let fetchPromises =
                foldl answer
                  (map_async (map (getYourLands_fetchPromise e) landIds)
                     (tr @ [GetOwnedLands userAddress']))
                  answers
          in (Promise_all fetchPromises, issued_calls fetchPromises))"

definition fetchAllLands ::
  "env \<Rightarrow> nat list \<Rightarrow> call list \<Rightarrow> (js_error + yourLand list) option \<times> call list" where
  "fetchAllLands e answers tr =
     (case contract_getAllLandIds e of
        Inl err \<Rightarrow> (Some (Inl err), tr @ [GetAllLandIds])
      | Inr landIds \<Rightarrow>
          let fetchPromises =
                foldl answer
                  (map_async (map (fetchAllLands_fetchPromise e) landIds) (tr @ [GetAllLandIds]))
                  answers
          in (Promise_all fetchPromises, issued_calls fetchPromises))"

text \<open>
  The promise of a closure after \<open>m\<close> answers, and the call it issues at its \<open>m\<close>-th
  \<open>await\<close> (counted from 0) if it gets that far, both read off the closure run alone.
\<close>

definition after :: "nat \<Rightarrow> 'a io \<Rightarrow> 'a promise" where
  "after m c =
     (case c [] of (r, xs) \<Rightarrow> if length xs \<le> m then Done r else Waiting (drop (Suc m) xs) r)"

definition next_call :: "nat \<Rightarrow> 'a io \<Rightarrow> call list" where
  "next_call m c = (let xs = snd (c []) in if m < length xs then [xs ! m] else [])"

section \<open>approvePurchase, one await at a time\<close>

text \<open>
  An invocation of \<open>approvePurchase\<close> runs until its next \<open>await\<close> and is resumed when
  the awaited call answers; between two of its steps other invocations may be called and
  resumed. \<open>suspended\<close> lists the awaits of \<open>approvePurchase\<close>, of \<open>connectAccount\<close> and
  of \<open>signAuthMessage\<close> in program order, each with the local variables that are live
  there. The module keeps no variable outside its functions, so an invocation is its
  arguments and the point it is suspended at.
\<close>

datatype suspended =
    AwaitProvider
  | AwaitAddress signer
  | AwaitTransfer ws
  | AwaitWait ws tx
  | AwaitAuthMessage ws
  | AwaitSignature ws string
  | AwaitRegrant ws signature
  | Settled "js_error + unit"

record invocation =
  inv_landId :: string
  inv_buyerAddress :: address
  inv_privateCID :: cid
  suspended_at :: suspended

text \<open>The call an invocation is waiting for.\<close>

definition pending :: "invocation \<Rightarrow> call option" where
  "pending i =
     (case suspended_at i of
        AwaitProvider \<Rightarrow> Some GetWeb3ProviderAndSigner
      | AwaitAddress s \<Rightarrow> Some (GetAddress s)
      | AwaitTransfer w \<Rightarrow> Some (TransferLandOwnership (inv_landId i) (inv_buyerAddress i))
      | AwaitWait w t \<Rightarrow> Some (TxWait t)
      | AwaitAuthMessage w \<Rightarrow> Some (GetAuthMessage (userAddress w))
      | AwaitSignature w m \<Rightarrow> Some (SignMessage (signer w) (Some m))
      | AwaitRegrant w sg \<Rightarrow>
          Some (KavachTransferOwnership (userAddress w) (inv_privateCID i)
                  (inv_buyerAddress i) sg True)
      | Settled r \<Rightarrow> None)"

text \<open>The awaited call answers and the invocation runs to its next await, or settles.\<close>

definition resume :: "env \<Rightarrow> invocation \<Rightarrow> invocation" where
  "resume e i =
     i\<lparr>suspended_at :=
       (case suspended_at i of
          AwaitProvider \<Rightarrow>
            (case getWeb3ProviderAndSigner e of
               Inl x \<Rightarrow> Settled (Inl x)
             | Inr None \<Rightarrow> Settled (Inl (Error ''MetaMask not connected''))
             | Inr (Some s) \<Rightarrow> AwaitAddress s)
        | AwaitAddress s \<Rightarrow>
            (case signer_getAddress e s of
               Inl x \<Rightarrow> Settled (Inl x)
             | Inr a \<Rightarrow>
                 AwaitTransfer \<lparr>signer = s, contract = Contract (CONTRACT_ADDRESS e) s,
                                 userAddress = a\<rparr>)
        | AwaitTransfer w \<Rightarrow>
            (case contract_transferLandOwnership e (inv_landId i) (inv_buyerAddress i) of
               Inl x \<Rightarrow> Settled (Inl x)
             | Inr t \<Rightarrow> AwaitWait w t)
        | AwaitWait w t \<Rightarrow>
            (case tx_wait e t of
               Inl x \<Rightarrow> Settled (Inl x)
             | Inr _ \<Rightarrow> AwaitAuthMessage w)
        | AwaitAuthMessage w \<Rightarrow>
            (case kavach_getAuthMessage e (userAddress w) of
               Inl x \<Rightarrow> Settled (Inl x)
             | Inr None \<Rightarrow> Settled (Inl (Error ''No Kavach auth challenge found''))
             | Inr (Some m) \<Rightarrow> AwaitSignature w m)
        | AwaitSignature w m \<Rightarrow>
            (case signer_signMessage e (signer w) (Some m) of
               Inl x \<Rightarrow> Settled (Inl x)
             | Inr sg \<Rightarrow> AwaitRegrant w sg)
        | AwaitRegrant w sg \<Rightarrow>
            (case kavach_transferOwnership e (userAddress w) (inv_privateCID i)
                    (inv_buyerAddress i) sg True of
               Inl x \<Rightarrow> Settled (Inl x)
             | Inr transferNFT \<Rightarrow>
                 let err = (case transferNFT of None \<Rightarrow> JUndefined | Some v \<Rightarrow> v) in
                 if truthy err then Settled (Inl (Error (error_message err)))
                 else Settled (Inr ()))
        | Settled r \<Rightarrow> Settled r)\<rparr>"

text \<open>
  Calling \<open>approvePurchase(landId, buyerAddress, privateCID)\<close>: the body starts with
  \<open>await connectAccount()\<close>, whose first statement awaits the wallet provider.
\<close>

definition invoke :: "string \<Rightarrow> address \<Rightarrow> cid \<Rightarrow> invocation" where
  "invoke lid buyerAddress privateCID =
     \<lparr>inv_landId = lid, inv_buyerAddress = buyerAddress, inv_privateCID = privateCID,
      suspended_at = AwaitProvider\<rparr>"

fun settled :: "suspended \<Rightarrow> bool" where
  "settled (Settled r) = True"
| "settled p = False"

text \<open>
  The page's JavaScript process: the invocations made so far and the calls issued so far.
  An event is a call of \<open>approvePurchase\<close>, which runs to its first await, or the answer
  to the call that the \<open>k\<close>-th invocation waits for, which lets it run to its next await.
\<close>

record coordinator =
  invocations :: "invocation list"
  issued :: "call list"

datatype event = Call string address cid | Resume nat

definition issue :: "invocation \<Rightarrow> call list" where
  "issue i = (case pending i of None \<Rightarrow> [] | Some c \<Rightarrow> [c])"

fun occur :: "env \<Rightarrow> coordinator \<Rightarrow> event \<Rightarrow> coordinator" where
  "occur e st (Call lid buyerAddress privateCID) =
     \<lparr>invocations = invocations st @ [invoke lid buyerAddress privateCID],
      issued = issued st @ issue (invoke lid buyerAddress privateCID)\<rparr>"
| "occur e st (Resume k) =
     (if k < length (invocations st)
      then \<lparr>invocations = (invocations st)[k := resume e (invocations st ! k)],
            issued = issued st @ (if settled (suspended_at (invocations st ! k)) then []
                                  else issue (resume e (invocations st ! k)))\<rparr>
      else st)"

definition run :: "env \<Rightarrow> event list \<Rightarrow> coordinator" where
  "run e evs = foldl (occur e) \<lparr>invocations = [], issued = []\<rparr> evs"

text \<open>The transfers of \<open>lid\<close> in flight: called and not yet settled.\<close>

definition in_flight :: "string \<Rightarrow> coordinator \<Rightarrow> invocation list" where
  "in_flight lid st =
     filter (\<lambda>i. inv_landId i = lid \<and> \<not> settled (suspended_at i)) (invocations st)"

section \<open>Example environments\<close>

text \<open>The metadata document of parcel 7, as \<open>listingLand\<close> uploads one.\<close>

definition meta_7 :: jsonMeta where
  "meta_7 = [(''titleNumber'', JString ''GRN 7''),
             (''landType'', JString ''Residential''),
             (''username'', JString ''alice''),
             (''area'', JString ''100 m2''),
             (''geranCid'', JString ''QmGeran''),
             (''timestamp'', JString ''2025-06-01T00:00:00.000Z'')]"

definition land_7 :: "int \<Rightarrow> onchain" where
  "land_7 i = \<lparr>onchain.landId = i, onchain.status = 1, onchain.metadataCID = ''QmDoc''\<rparr>"

definition pub_7 :: "int \<Rightarrow> cid" where
  "pub_7 i = (if i = 8 then ''QmBad'' else ''QmGood'')"

text \<open>
  The functions of the runtime and of ethers, tabulated at the texts and numbers the
  examples below use: \<open>parseFloat\<close> (a text that is no number gives \<open>NaN\<close>),
  \<open>Number.prototype.toString\<close> (exact on the non-finite values, on whole numbers below
  \<open>10 ^ 21\<close> and on the quotient of 1.125 by 4000), \<open>BigInt\<close>, \<open>parseEther\<close> (which
  rejects a text that is no decimal number) and \<open>formatEther\<close>.
\<close>

definition example_parseFloat :: "string \<Rightarrow> js_number" where
  "example_parseFloat s =
     (if s = ''4000'' then Finite 4000
      else if s = ''0'' then Finite 0
      else if s = ''0.0'' then Finite 0
      else if s = ''-5'' then Finite (- 5)
      else if s = ''1.0'' then Finite 1
      else if s = ''1.125'' then Finite (9 / 8)
      else if s = ''0.00028125'' then Finite (5188146770730811 / 18446744073709551616)
      else NaN)"

fun example_toString :: "js_number \<Rightarrow> string" where
  "example_toString NaN = ''NaN''"
| "example_toString PosInfinity = ''Infinity''"
| "example_toString NegInfinity = ''-Infinity''"
| "example_toString (Finite q) =
     (if q = 5188146770730811 / 18446744073709551616 then ''0.00028125''
      else if of_int \<lfloor>q\<rfloor> = q \<and> \<bar>q\<bar> < 10 ^ 21 then int_toString \<lfloor>q\<rfloor>
      else [])"

definition example_BigInt :: "string \<Rightarrow> js_error + int" where
  "example_BigInt s =
     (if s = ''7'' then Inr 7 else Inl (Error ''Cannot convert to a BigInt''))"

definition example_parseEther :: "string \<Rightarrow> js_error + int" where
  "example_parseEther s =
     (if s = ''1'' then Inr 1000000000000000000
      else if s = ''0'' then Inr 0
      else if s = ''0.00028125'' then Inr 281250000000000
      else Inl (Error ''invalid FixedNumber string value''))"

definition example_formatEther :: "int \<Rightarrow> string" where
  "example_formatEther w =
     (if w = 1000000000000000000 then ''1.0''
      else if w = 281250000000000 then ''0.00028125''
      else ''0.0'')"

text \<open>
  A wallet that connects, a ledger that accepts every call, a content store that accepts
  every upload and regrant, and a gateway that serves \<open>QmGood\<close> only. The owner holds
  parcels 7, 8 and 9; parcel 8 points at \<open>QmBad\<close>, the others at \<open>QmGood\<close>.
\<close>

definition env_ok :: env where
  "env_ok = \<lparr>
     getWeb3ProviderAndSigner = Inr (Some (JsonRpcSigner 0)),
     signer_getAddress = (\<lambda>s. Inr ''0xSeller''),
     signer_signMessage = (\<lambda>s m. Inr ''sig''),
     newBrowserProvider = Inr (BrowserProvider 0),
     provider_getSigner = (\<lambda>p. Inr (JsonRpcSigner 0)),
     CONTRACT_ADDRESS = ''0xRegistry'',
     LIGHTHOUSE_API_KEY = ''key'',
     contract_transferLandOwnership = (\<lambda>l b. Inr (TransactionResponse 1)),
     contract_registerLand = (\<lambda>a g p w. Inr (TransactionResponse 2)),
     contract_listLandForSale = (\<lambda>l w. Inr (TransactionResponse 3)),
     contract_requestToBuy = (\<lambda>l w. Inr (TransactionResponse 4)),
     contract_updateLandDetails = (\<lambda>l s w. Inr (TransactionResponse 5)),
     contract_landPrices = (\<lambda>l. Inr 1000000000000000000),
     contract_getOwnedLands = (\<lambda>a. Inr [7, 8, 9]),
     contract_getAllLandIds = Inr [7, 8, 9],
     contract_getLand = (\<lambda>i. Inr (land_7 i, ''0xSeller'', pub_7 i)),
     tx_wait = (\<lambda>t. Inr ()),
     kavach_getAuthMessage = (\<lambda>a. Inr (Some ''challenge'')),
     kavach_transferOwnership = (\<lambda>a c b s f. Inr (Some JUndefined)),
     lighthouse_uploadEncrypted = (\<lambda>f k a s. Inr [''QmGeran'']),
     lighthouse_upload = (\<lambda>m k. Inr ''QmGood''),
     fetch = (\<lambda>u. if u = ''https://gateway.lighthouse.storage/ipfs/QmGood''
                   then Inr \<lparr>ok = True, json = Inr (Some meta_7)\<rparr>
                   else Inl (TypeError ''Failed to fetch'')),
     reloadLands = Inr (),
     onClose = Inr (),
     parseFloat = example_parseFloat,
     number_toString = example_toString,
     BigInt = example_BigInt,
     parseEther = example_parseEther,
     formatEther = example_formatEther,
     new_Date_toISOString = ''2025-06-01T00:00:00.000Z''
   \<rparr>"

text \<open>
  The ledger rejects the transfer; the confirmation fails; the regrant is refused; the
  ledger fails with the text the content store uses; there is no wallet provider; the
  price lookup fails.
\<close>

definition env_transfer_reverts :: env where
  "env_transfer_reverts =
     env_ok\<lparr>contract_transferLandOwnership := \<lambda>l b. Inl (Error ''execution reverted'')\<rparr>"

definition env_wait_fails :: env where
  "env_wait_fails = env_ok\<lparr>tx_wait := \<lambda>t. Inl (Error ''transaction failed'')\<rparr>"

definition env_regrant_denied :: env where
  "env_regrant_denied =
     env_ok\<lparr>kavach_transferOwnership := \<lambda>a c b s f. Inr (Some (JString ''access denied''))\<rparr>"

definition env_ledger_denied :: env where
  "env_ledger_denied =
     env_ok\<lparr>contract_transferLandOwnership := \<lambda>l b. Inl (Error ''access denied'')\<rparr>"

definition env_no_provider :: env where
  "env_no_provider = env_ok\<lparr>newBrowserProvider := Inl (Error ''invalid EIP-1193 provider'')\<rparr>"

definition env_lookup_fails :: env where
  "env_lookup_fails = env_ok\<lparr>contract_landPrices := \<lambda>l. Inl (Error ''missing revert data'')\<rparr>"

text \<open>The ledger holds the price 0 for every parcel.\<close>

definition env_zero_price :: env where
  "env_zero_price = env_ok\<lparr>contract_landPrices := \<lambda>l. Inr 0\<rparr>"

text \<open>
  The registry lists parcels 7 and 8; \<open>getLand\<close> fails for parcel 8 and every price
  lookup fails.
\<close>

definition env_two_failures :: env where
  "env_two_failures =
     env_ok\<lparr>contract_getAllLandIds := Inr [7, 8],
            contract_getLand :=
              (\<lambda>i. if i = 8 then Inl (Error ''getLand failed for 8'')
                    else Inr (land_7 i, ''0xSeller'', pub_7 i)),
            contract_landPrices := \<lambda>l. Inl (Error ''price lookup failed for 7'')\<rparr>"

text \<open>The owner holds parcel 8 alone.\<close>

definition env_only_8 :: env where
  "env_only_8 =
     env_ok\<lparr>contract_getOwnedLands := \<lambda>a. Inr [8], contract_getAllLandIds := Inr [8]\<rparr>"

text \<open>The dialog's property: parcel 7, whose sale has been approved.\<close>

definition property_7 :: property where
  "property_7 = \<lparr>property_id = ''7'',
                 property.titleNumber = ''GRN 7'',
                 property.owner = ''alice'',
                 ownerAddress = ''0xSeller'',
                 location = ''Kuala Lumpur'',
                 coordinates = ''3.15,101.71'',
                 property.area = ''100 m2'',
                 propertyType = Residential,
                 registrationDate = ''2025-06-01'',
                 lastTransfer = ''2025-06-01'',
                 property.status = Approved,
                 blockchainHash = ''0xabc'',
                 surveyNumber = ''S-7'',
                 marketValue = ''4000'',
                 encumbrances = [],
                 property.metadataCID = ''QmGood''\<rparr>"

text \<open>Two calls for parcel 7, each answered twice: both wait for the ledger's transfer.\<close>

definition two_transfers :: "event list" where
  "two_transfers =
     [Call ''7'' ''0xBuyer'' ''QmDoc'', Call ''7'' ''0xBuyer'' ''QmDoc'',
      Resume 0, Resume 1, Resume 0, Resume 1]"

text \<open>A call for parcel 7, answered twice: it waits for the ledger's transfer.\<close>

definition transfer_then_call :: "event list" where
  "transfer_then_call = [Call ''7'' ''0xBuyer'' ''QmDoc'', Resume 0, Resume 0]"

section \<open>Properties\<close>

lemmas io_defs = andThen_def await_def throw_def return_def sync_def tryCatch_def

lemmas example_defs = env_ok_def example_parseFloat_def example_BigInt_def
  example_parseEther_def example_formatEther_def land_7_def pub_7_def gateway_url_def meta_7_def

subsection \<open>Numbers and texts\<close>

lemma pow2_pos: "0 < pow2 k"
  by (simp add: pow2_def)

lemma round_half_even_nonneg: "0 \<le> q \<Longrightarrow> 0 \<le> round_half_even q"
  by (simp add: round_half_even_def Let_def)

lemma round64_mag_nonneg:
  assumes "0 \<le> a" and "round64_mag a = Some v"
  shows "0 \<le> v"
proof -
  let ?u = "pow2 (max (binade a) (- 1022) - 52)"
  have "0 \<le> a / ?u"
    using assms(1) pow2_pos[of "max (binade a) (- 1022) - 52"] by simp
  then have "0 \<le> round_half_even (a / ?u)"
    by (rule round_half_even_nonneg)
  then have "0 \<le> of_int (round_half_even (a / ?u)) * ?u"
    using pow2_pos[of "max (binade a) (- 1022) - 52"] by simp
  with assms(2) show ?thesis
    by (simp add: round64_mag_def Let_def split: if_splits)
qed

lemma le_zero_round64: "q \<le> 0 \<Longrightarrow> le_zero (round64 q)"
  using round64_mag_nonneg[of "- q"]
  by (auto simp: round64_def split: option.splits)

lemma le_zero_div_RM_PER_ETH: "le_zero x \<Longrightarrow> le_zero (div_RM_PER_ETH x)"
  by (cases x) (auto simp: RM_PER_ETH_def intro!: le_zero_round64 divide_nonpos_pos)

lemma pow2_powi: "pow2 k = 2 powi k"
  by (simp add: pow2_def power_int_def inverse_eq_divide power_one_over)

lemma pow2_add: "pow2 (j + k) = pow2 j * pow2 k"
  by (simp add: pow2_powi power_int_add)

lemma pow2_mono: "j \<le> k \<Longrightarrow> pow2 j \<le> pow2 k"
  by (simp add: pow2_powi power_int_increasing)

lemma bitlen_pos: "0 < n \<Longrightarrow> bitlen n = 1 + bitlen (n div 2)"
  by (subst bitlen.simps) simp

lemma bitlen_nonneg: "0 \<le> bitlen n"
proof (induction n rule: bitlen.induct)
  case (1 n)
  then show ?case by (subst bitlen.simps) simp
qed

lemma bitlen_int_bounds:
  "0 < n \<Longrightarrow> 2 ^ nat (bitlen n - 1) \<le> n \<and> n < 2 ^ nat (bitlen n)"
proof (induction n rule: bitlen.induct)
  case (1 n)
  have b: "bitlen n = 1 + bitlen (n div 2)"
    using "1.prems" by (rule bitlen_pos)
  show ?case
  proof (cases "n = 1")
    case True
    have "bitlen (0::int) = 0" by (subst bitlen.simps) simp
    with True b show ?thesis by simp
  next
    case False
    with "1.prems" have h: "0 < n div 2" by simp
    have n: "\<not> n \<le> 0" using "1.prems" by simp
    from "1.IH"[OF n h]
    have lo: "2 ^ nat (bitlen (n div 2) - 1) \<le> n div 2"
      and hi: "n div 2 < 2 ^ nat (bitlen (n div 2))" by simp_all
    have k: "1 \<le> bitlen (n div 2)"
      using bitlen_pos[OF h] bitlen_nonneg[of "n div 2 div 2"] by simp
    have e: "nat (bitlen (n div 2)) = Suc (nat (bitlen (n div 2) - 1))"
      using k by simp
    have e2: "nat (1 + bitlen (n div 2)) = Suc (nat (bitlen (n div 2)))"
      using k by simp
    have "2 * 2 ^ nat (bitlen (n div 2) - 1) \<le> n"
      using lo by linarith
    moreover have "n < 2 * 2 ^ nat (bitlen (n div 2))"
      using hi by linarith
    ultimately show ?thesis
      by (simp only: b add_diff_cancel_left' e2 power_Suc) (simp only: e power_Suc)
  qed
qed

lemma bitlen_bounds:
  assumes "0 < n"
  shows "pow2 (bitlen n - 1) \<le> of_int n" and "of_int n < pow2 (bitlen n)"
proof -
  have k: "0 \<le> bitlen n - 1"
    using bitlen_pos[OF assms] bitlen_nonneg[of "n div 2"] by simp
  have "(of_int (2 ^ nat (bitlen n - 1)) :: rat) \<le> of_int n"
    using bitlen_int_bounds[OF assms] by (simp only: of_int_le_iff)
  then show "pow2 (bitlen n - 1) \<le> of_int n"
    using k by (simp add: pow2_def)
  have "(of_int n :: rat) < of_int (2 ^ nat (bitlen n))"
    using bitlen_int_bounds[OF assms] by (simp only: of_int_less_iff)
  then show "of_int n < pow2 (bitlen n)"
    using bitlen_nonneg[of n] by (simp add: pow2_def)
qed

lemma binade_lower:
  assumes "0 < a"
  shows "pow2 (binade a) \<le> a"
proof -
  obtain n d where q: "quotient_of a = (n, d)" by (cases "quotient_of a")
  then have d: "0 < d" by (rule quotient_of_denom_pos)
  have a: "a = of_int n / of_int d" using q by (rule quotient_of_div)
  have n: "0 < n" using assms d a by (simp add: zero_less_divide_iff)
  let ?e0 = "bitlen n - bitlen d"
  have bd: "binade a = (if pow2 ?e0 \<le> a then ?e0 else ?e0 - 1)"
    by (simp add: binade_def q)
  show ?thesis
  proof (cases "pow2 ?e0 \<le> a")
    case True
    then show ?thesis by (simp add: bd)
  next
    case False
    have 1: "pow2 (bitlen n - 1) \<le> of_int n" by (rule bitlen_bounds[OF n])
    have 2: "of_int d < pow2 (bitlen d)" by (rule bitlen_bounds[OF d])
    have 3: "pow2 (bitlen n - 1) = pow2 (?e0 - 1) * pow2 (bitlen d)"
      by (simp add: pow2_add[symmetric])
    have "pow2 (?e0 - 1) * of_int d \<le> pow2 (?e0 - 1) * pow2 (bitlen d)"
      using 2 pow2_pos[of "?e0 - 1"] by (intro mult_left_mono) simp_all
    with 1 3 have "pow2 (?e0 - 1) * of_int d \<le> of_int n" by simp
    then have "pow2 (?e0 - 1) \<le> a"
      using d by (simp add: a pos_le_divide_eq)
    with False show ?thesis by (simp add: bd)
  qed
qed

lemma round_half_even_error: "\<bar>of_int (round_half_even r) - r\<bar> \<le> 1 / 2"
proof -
  have "of_int \<lfloor>r\<rfloor> \<le> r" "r < of_int \<lfloor>r\<rfloor> + 1" by linarith+
  then show ?thesis
    by (auto simp: round_half_even_def Let_def abs_le_iff)
qed

text \<open>The relative error of rounding in the normal range.\<close>

lemma round64_mag_error:
  assumes lo: "pow2 (- 1022) \<le> a" and hi: "a \<le> pow2 1023"
  shows "\<exists>v. round64_mag a = Some v \<and> \<bar>v - a\<bar> \<le> a / 2 ^ 53"
proof -
  have a: "0 < a" using lo pow2_pos[of "- 1022"] by simp
  define e where "e = max (binade a) (- 1022)"
  define u where "u = pow2 (e - 52)"
  define n where "n = round_half_even (a / u)"
  define v where "v = of_int n * u"
  define r where "r = a / 2 ^ 53"
  have u: "0 < u" unfolding u_def by (rule pow2_pos)
  have pe: "pow2 e \<le> a"
    using binade_lower[OF a] lo by (simp add: e_def max_def)
  have "v - a = (of_int n - a / u) * u"
    using u by (simp add: v_def left_diff_distrib)
  then have "\<bar>v - a\<bar> = \<bar>of_int n - a / u\<bar> * u"
    using u by (simp only: abs_mult abs_of_pos)
  also have "\<dots> \<le> 1 / 2 * u"
    unfolding n_def using u round_half_even_error[of "a / u"]
    by (intro mult_right_mono) simp_all
  also have "\<dots> = pow2 e / 2 ^ 53"
  proof -
    have "pow2 (e - 52) = pow2 e * pow2 (- 52)"
      using pow2_add[of e "- 52"] by simp
    then show ?thesis by (simp add: u_def pow2_def)
  qed
  also have "\<dots> \<le> r"
    unfolding r_def using pe by (rule divide_right_mono) simp
  finally have err: "\<bar>v - a\<bar> \<le> r" .
  have "r \<le> pow2 1023 / 2 ^ 53"
    unfolding r_def using hi by (rule divide_right_mono) simp
  moreover have "pow2 1023 + pow2 1023 / 2 ^ 53 < pow2 1024"
    by (simp add: pow2_def)
  ultimately have "v < pow2 1024"
    using err hi by linarith
  then have "round64_mag a = Some v"
    by (simp add: round64_mag_def Let_def v_def n_def u_def e_def)
  with err show ?thesis by (simp add: r_def)
qed

lemma round64_error:
  assumes "pow2 (- 1022) \<le> q" and "q \<le> pow2 1023"
  shows "\<exists>v. round64 q = Finite v \<and> \<bar>v - q\<bar> \<le> q / 2 ^ 53"
proof -
  have "0 < q" using assms(1) pow2_pos[of "- 1022"] by simp
  with round64_mag_error[OF assms] show ?thesis
    by (auto simp: round64_def)
qed

lemma cents_error: "\<bar>of_int (cents y) / 100 - y\<bar> \<le> 1 / 200"
proof -
  have "of_int (cents y) \<le> y * 100 + 1 / 2" and "y * 100 + 1 / 2 < of_int (cents y) + 1"
    unfolding cents_def by linarith+
  then show ?thesis by linarith
qed

lemma pow2_small: "pow2 (- 1022) \<le> 1 / 1000000"
  by (simp add: pow2_def)

lemma pow2_large: "(10 :: rat) ^ 21 \<le> pow2 1023"
  by (simp add: pow2_def)

lemma div_mul_error:
  assumes lo: "1 / 100 \<le> x" and hi: "x \<le> 10 ^ 20"
  shows "\<exists>d y. div_RM_PER_ETH (Finite x) = Finite d \<and> mul_RM_PER_ETH (Finite d) = Finite y
           \<and> \<bar>y - x\<bar> \<le> x / 2 ^ 51"
proof -
  define q1 where "q1 = x / 4000"
  have q1: "pow2 (- 1022) \<le> q1" "q1 \<le> pow2 1023"
    using lo hi pow2_small pow2_large unfolding q1_def by simp_all
  from round64_error[OF q1] obtain d
    where d: "round64 q1 = Finite d" and de: "\<bar>d - q1\<bar> \<le> q1 / 2 ^ 53" by blast
  have q1pos: "0 < q1" using lo by (simp add: q1_def)
  have e53: "q1 / 2 ^ 53 \<le> q1 / 2" using q1pos by (intro divide_left_mono) simp_all
  have dlo: "q1 / 2 \<le> d" and dhi: "d \<le> 2 * q1"
    using de e53 q1pos by linarith+
  define q2 where "q2 = d * 4000"
  have q2: "pow2 (- 1022) \<le> q2" "q2 \<le> pow2 1023"
    using dlo dhi lo hi pow2_small pow2_large unfolding q2_def q1_def by simp_all
  from round64_error[OF q2] obtain y
    where y: "round64 q2 = Finite y" and ye: "\<bar>y - q2\<bar> \<le> q2 / 2 ^ 53" by blast
  define r where "r = q1 / 2 ^ 53"
  have xr: "x / 2 ^ 53 = 4000 * r" by (simp add: r_def q1_def)
  have "\<bar>d - q1\<bar> \<le> r" using de by (simp add: r_def)
  then have "d - q1 \<le> r" and "- (d - q1) \<le> r" by (simp_all add: abs_le_iff)
  moreover have "q2 - x = 4000 * (d - q1)" by (simp add: q2_def q1_def)
  ultimately have "q2 - x \<le> 4000 * r" and "- (q2 - x) \<le> 4000 * r" by simp_all
  then have a: "\<bar>q2 - x\<bar> \<le> x / 2 ^ 53"
    unfolding xr by (simp only: abs_le_iff)
  have b: "q2 / 2 ^ 53 \<le> 2 * (x / 2 ^ 53)"
  proof -
    have "q2 \<le> 2 * x" using dhi by (simp add: q2_def q1_def)
    then have "q2 / 2 ^ 53 \<le> (2 * x) / 2 ^ 53" by (rule divide_right_mono) simp
    then show ?thesis by simp
  qed
  have c: "x / 2 ^ 51 = 4 * (x / 2 ^ 53)" by simp
  have "\<bar>y - x\<bar> \<le> x / 2 ^ 51"
    using ye a b lo unfolding c by linarith
  moreover have "div_RM_PER_ETH (Finite x) = Finite d"
    using d by (simp add: RM_PER_ETH_def q1_def)
  moreover have "mul_RM_PER_ETH (Finite d) = Finite y"
    using y by (simp add: RM_PER_ETH_def q2_def)
  ultimately show ?thesis by blast
qed

lemma div_minus_5: "le_zero (div_RM_PER_ETH (Finite (- 5)))"
  by (rule le_zero_div_RM_PER_ETH) simp

lemma mul_1: "mul_RM_PER_ETH (Finite 1) = Finite 4000"
  by code_simp

lemma div_4000: "div_RM_PER_ETH (Finite 4000) = Finite 1"
  by code_simp

lemma div_0: "div_RM_PER_ETH (Finite 0) = Finite 0"
  by code_simp

lemma int_toString_1: "int_toString 1 = ''1''"
  by code_simp

lemma example_toString_1: "example_toString (Finite 1) = ''1''"
  by code_simp

lemma fixed2_text_4000: "fixed2_text (cents 4000) = ''4000.00''"
  by code_simp

lemma fixed2_text_113: "fixed2_text 113 = ''1.13''"
  by code_simp

lemma cents_9_8: "cents (9 / 8) = 113"
  by code_simp

lemma div_9_8:
  "div_RM_PER_ETH (Finite (9 / 8)) = Finite (5188146770730811 / 18446744073709551616)"
  by code_simp

lemma mul_9_32000:
  "mul_RM_PER_ETH (Finite (5188146770730811 / 18446744073709551616)) = Finite (9 / 8)"
  by code_simp



lemma priceRM_of_wei_example:
  "priceRM_of_wei env_ok 1000000000000000000 = ''4000.00''"
  "priceRM_of_wei env_ok 281250000000000 = ''1.13''"
  by (simp_all add: priceRM_of_wei_def toFixed2_def example_defs mul_1 mul_9_32000
        fixed2_text_4000 cents_9_8 fixed2_text_113 del: mul_RM_PER_ETH.simps)


lemma int_toString_789:
  "int_toString 7 = ''7''" "int_toString 8 = ''8''" "int_toString 9 = ''9''"
  by code_simp+

subsection \<open>The two-phase transfer\<close>

text \<open>
  C1 (as the code has it). In \<open>approvePurchase\<close>, when the wallet is connected, the on-chain
  phase has succeeded and the off-chain phase fails, the promise rejects: the failure is
  never swallowed. The error is the one thrown by the Kavach challenge, by the signer or
  by the regrant call when one of them throws; it is \<open>Error("No Kavach auth challenge found")\<close>
  when the challenge has no message; and when the regrant response carries a truthy
  \<open>error\<close> it is a plain \<open>Error\<close> whose message is that error's text (its
  \<open>JSON.stringify\<close> when it is an object). The error is of the one \<open>Error\<close> class the
  module throws everywhere, and nothing of \<open>landId\<close>, the buyer or the document CID is
  in it.
\<close>

theorem approvePurchase_offchain_failure:
  assumes "getWeb3ProviderAndSigner e = Inr (Some s)"
    and "signer_getAddress e s = Inr a"
    and "contract_transferLandOwnership e lid buyerAddress = Inr t"
    and "tx_wait e t = Inr ()"
    and "kavach_getAuthMessage e a = Inl x
         \<or> (kavach_getAuthMessage e a = Inr None \<and> x = Error ''No Kavach auth challenge found'')
         \<or> (\<exists>m. kavach_getAuthMessage e a = Inr (Some m)
               \<and> (signer_signMessage e s (Some m) = Inl x
                  \<or> (\<exists>sg. signer_signMessage e s (Some m) = Inr sg
                        \<and> (kavach_transferOwnership e a privateCID buyerAddress sg True = Inl x
                           \<or> (\<exists>err. kavach_transferOwnership e a privateCID buyerAddress sg True
                                       = Inr (Some err)
                                     \<and> truthy err \<and> x = Error (error_message err))))))"
  shows "fst (approvePurchase e lid buyerAddress privateCID []) = Inl x"
  using assms
  by (auto simp: approvePurchase_def connectAccount_def signAuthMessage_def io_defs)

theorem approvePurchase_offchain_failure_witness:
  "fst (approvePurchase env_regrant_denied ''7'' ''0xBuyer'' ''QmDoc'' []) =
     Inl (Error ''access denied'')"
proof -
  have "getWeb3ProviderAndSigner env_regrant_denied = Inr (Some (JsonRpcSigner 0))"
    and "signer_getAddress env_regrant_denied (JsonRpcSigner 0) = Inr ''0xSeller''"
    and "contract_transferLandOwnership env_regrant_denied ''7'' ''0xBuyer''
           = Inr (TransactionResponse 1)"
    and "tx_wait env_regrant_denied (TransactionResponse 1) = Inr ()"
    and "kavach_getAuthMessage env_regrant_denied ''0xSeller'' = Inl (Error ''access denied'')
         \<or> (kavach_getAuthMessage env_regrant_denied ''0xSeller'' = Inr None
             \<and> Error ''access denied'' = Error ''No Kavach auth challenge found'')
         \<or> (\<exists>m. kavach_getAuthMessage env_regrant_denied ''0xSeller'' = Inr (Some m)
               \<and> (signer_signMessage env_regrant_denied (JsonRpcSigner 0) (Some m)
                     = Inl (Error ''access denied'')
                  \<or> (\<exists>sg. signer_signMessage env_regrant_denied (JsonRpcSigner 0) (Some m) = Inr sg
                        \<and> (kavach_transferOwnership env_regrant_denied ''0xSeller'' ''QmDoc''
                              ''0xBuyer'' sg True = Inl (Error ''access denied'')
                           \<or> (\<exists>err. kavach_transferOwnership env_regrant_denied ''0xSeller''
                                       ''QmDoc'' ''0xBuyer'' sg True = Inr (Some err)
                                     \<and> truthy err
                                     \<and> Error ''access denied'' = Error (error_message err))))))"
    by (simp_all add: env_regrant_denied_def env_ok_def)
  then show ?thesis
    by (rule approvePurchase_offchain_failure)
qed

text \<open>
  The regrant is refused for parcel 7 and for parcel 8, with different buyers and
  documents: the two errors are equal, and equal to the error of a ledger call that
  fails with the same message.
\<close>

theorem approvePurchase_error_without_context:
  "approvePurchase env_regrant_denied ''7'' ''0xBuyer'' ''QmDoc'' [] =
     (Inl (Error ''access denied''),
      [GetWeb3ProviderAndSigner, GetAddress (JsonRpcSigner 0),
       TransferLandOwnership ''7'' ''0xBuyer'', TxWait (TransactionResponse 1),
       GetAuthMessage ''0xSeller'', SignMessage (JsonRpcSigner 0) (Some ''challenge''),
       KavachTransferOwnership ''0xSeller'' ''QmDoc'' ''0xBuyer'' ''sig'' True])
   \<and> fst (approvePurchase env_regrant_denied ''8'' ''0xOther'' ''QmOther'' []) =
       Inl (Error ''access denied'')
   \<and> fst (approvePurchase env_ledger_denied ''7'' ''0xBuyer'' ''QmDoc'' []) =
       Inl (Error ''access denied'')"
  by (simp add: approvePurchase_def connectAccount_def signAuthMessage_def io_defs
        env_regrant_denied_def env_ledger_denied_def env_ok_def)

text \<open>
  C2. In \<open>approvePurchase\<close>, when the wallet is connected and the on-chain phase fails
  (the ledger call \<open>transferLandOwnership\<close> throws, or it returns a transaction whose
  \<open>wait\<close> throws), the function rejects with that error and none of the calls it has
  issued belongs to the off-chain phase: no Kavach challenge, no signature, no regrant.
\<close>

theorem approvePurchase_onchain_failure_no_offchain:
  assumes "getWeb3ProviderAndSigner e = Inr (Some s)"
    and "signer_getAddress e s = Inr a"
    and "contract_transferLandOwnership e lid buyerAddress = Inl err
         \<or> (\<exists>t. contract_transferLandOwnership e lid buyerAddress = Inr t
                \<and> tx_wait e t = Inl err)"
  shows "fst (approvePurchase e lid buyerAddress privateCID []) = Inl err
         \<and> filter off_chain_call (snd (approvePurchase e lid buyerAddress privateCID [])) = []"
  using assms
  by (auto simp: approvePurchase_def connectAccount_def io_defs)

theorem approvePurchase_onchain_failure_no_offchain_witness:
  "approvePurchase env_transfer_reverts ''7'' ''0xBuyer'' ''QmDoc'' [] =
     (Inl (Error ''execution reverted''),
      [GetWeb3ProviderAndSigner, GetAddress (JsonRpcSigner 0),
       TransferLandOwnership ''7'' ''0xBuyer''])
   \<and> fst (approvePurchase env_wait_fails ''7'' ''0xBuyer'' ''QmDoc'' []) =
       Inl (Error ''transaction failed'')
   \<and> filter off_chain_call (snd (approvePurchase env_wait_fails ''7'' ''0xBuyer'' ''QmDoc'' [])) = []"
proof -
  have "approvePurchase env_transfer_reverts ''7'' ''0xBuyer'' ''QmDoc'' [] =
     (Inl (Error ''execution reverted''),
      [GetWeb3ProviderAndSigner, GetAddress (JsonRpcSigner 0),
       TransferLandOwnership ''7'' ''0xBuyer''])"
    by (simp add: approvePurchase_def connectAccount_def io_defs env_transfer_reverts_def
          env_ok_def)
  moreover have "fst (approvePurchase env_wait_fails ''7'' ''0xBuyer'' ''QmDoc'' []) =
       Inl (Error ''transaction failed'')
     \<and> filter off_chain_call
         (snd (approvePurchase env_wait_fails ''7'' ''0xBuyer'' ''QmDoc'' [])) = []"
    by (rule approvePurchase_onchain_failure_no_offchain
          [of env_wait_fails "JsonRpcSigner 0" "''0xSeller''"])
       (simp_all add: env_wait_fails_def env_ok_def)
  ultimately show ?thesis by simp
qed

subsection \<open>Transitions and prices\<close>

text \<open>
  C3 (as the code has it). The client has no transition table and no
  \<open>InvalidTransition\<close> error. \<open>handleSave\<close> issues
  \<open>updateLandDetails(landId, statusToEnum(newStatus), priceWei)\<close> whenever the identifier
  and the price convert, whatever the property's current status and whatever the status
  chosen, and it resolves without an error; \<open>statusToEnum\<close> sends the four statuses to
  0..3. \<open>listLandForSale\<close> issues \<open>contract.listLandForSale(landId, priceWei)\<close>
  whenever the wallet is connected and the price converts to an amount that is not
  \<open>\<le> 0\<close>; it is not given the parcel's status at all. Whether a transition is allowed is
  left to the ledger contract.
\<close>

theorem client_checks_no_transition:
  assumes "BigInt e (property_id p) = Inr i"
    and "parseEther e (number_toString e (div_RM_PER_ETH (parseFloat e newPrice))) = Inr w"
  shows "fst (handleSave e (Some c) p newStatus newPrice []) = Inr ()
         \<and> (\<exists>rest. snd (handleSave e (Some c) p newStatus newPrice []) =
               UpdateLandDetails i (statusToEnum newStatus) w # rest)
         \<and> handleSave e (Some c) (p\<lparr>property.status := st\<rparr>) newStatus newPrice =
             handleSave e (Some c) p newStatus newPrice
         \<and> statusToEnum newStatus < 4
         \<and> (\<forall>s a. getWeb3ProviderAndSigner e = Inr (Some s) \<and> signer_getAddress e s = Inr a
                    \<and> \<not> le_zero (div_RM_PER_ETH (parseFloat e newPrice)) \<longrightarrow>
              listLandForSale e lid newPrice [] =
                (contract_listLandForSale e lid w,
                 [GetWeb3ProviderAndSigner, GetAddress s, ListLandForSale lid w]))"
proof (intro conjI allI impI)
  show "fst (handleSave e (Some c) p newStatus newPrice []) = Inr ()"
    using assms by (simp add: handleSave_def io_defs Let_def split: sum.splits)
  show "\<exists>rest. snd (handleSave e (Some c) p newStatus newPrice []) =
               UpdateLandDetails i (statusToEnum newStatus) w # rest"
    using assms by (simp add: handleSave_def io_defs Let_def split: sum.splits)
  show "handleSave e (Some c) (p\<lparr>property.status := st\<rparr>) newStatus newPrice =
             handleSave e (Some c) p newStatus newPrice"
    by (simp add: handleSave_def)
  show "statusToEnum newStatus < 4"
    by (cases newStatus) simp_all
next
  fix s a
  assume "getWeb3ProviderAndSigner e = Inr (Some s) \<and> signer_getAddress e s = Inr a
            \<and> \<not> le_zero (div_RM_PER_ETH (parseFloat e newPrice))"
  then show "listLandForSale e lid newPrice [] =
             (contract_listLandForSale e lid w,
              [GetWeb3ProviderAndSigner, GetAddress s, ListLandForSale lid w])"
    using assms(2) by (simp add: listLandForSale_def connectAccount_def io_defs Let_def)
qed

theorem client_checks_no_transition_witness:
  "fst (handleSave env_ok (Some (Contract ''0xRegistry'' (JsonRpcSigner 0))) property_7
          ForSale ''4000'' []) = Inr ()
   \<and> (\<exists>rest. snd (handleSave env_ok (Some (Contract ''0xRegistry'' (JsonRpcSigner 0))) property_7
                     ForSale ''4000'' []) =
          UpdateLandDetails 7 1 1000000000000000000 # rest)
   \<and> handleSave env_ok (Some (Contract ''0xRegistry'' (JsonRpcSigner 0)))
       (property_7\<lparr>property.status := Active\<rparr>) ForSale ''4000'' =
     handleSave env_ok (Some (Contract ''0xRegistry'' (JsonRpcSigner 0))) property_7
       ForSale ''4000''
   \<and> listLandForSale env_ok ''7'' ''4000'' [] =
     (Inr (TransactionResponse 3),
      [GetWeb3ProviderAndSigner, GetAddress (JsonRpcSigner 0),
       ListLandForSale ''7'' 1000000000000000000])"
proof -
  have h1: "BigInt env_ok (property_id property_7) = Inr 7"
    by (simp add: env_ok_def property_7_def example_BigInt_def)
  have h2: "parseEther env_ok (number_toString env_ok (div_RM_PER_ETH (parseFloat env_ok ''4000'')))
              = Inr 1000000000000000000"
    by (simp add: example_defs div_4000 example_toString_1
          del: div_RM_PER_ETH.simps example_toString.simps)
  have h3: "getWeb3ProviderAndSigner env_ok = Inr (Some (JsonRpcSigner 0))
            \<and> signer_getAddress env_ok (JsonRpcSigner 0) = Inr ''0xSeller''
            \<and> \<not> le_zero (div_RM_PER_ETH (parseFloat env_ok ''4000''))"
    by (simp add: example_defs div_4000 del: div_RM_PER_ETH.simps)
  from client_checks_no_transition[OF h1 h2,
      of "Contract ''0xRegistry'' (JsonRpcSigner 0)" ForSale Active "''7''"] h3
  show ?thesis by (simp add: env_ok_def)
qed

text \<open>
  The property is \<open>Approved\<close> and the status chosen is \<open>ForSale\<close>, one of the two the
  dialog offers; the table has no transition from \<open>Approved\<close> to \<open>ForSale\<close>. The ledger
  call is issued and \<open>handleSave\<close> resolves.
\<close>

theorem handleSave_unlisted_transition:
  "property.status property_7 = Approved
   \<and> ForSale \<in> set status_options
   \<and> handleSave env_ok (Some (Contract ''0xRegistry'' (JsonRpcSigner 0))) property_7
       ForSale ''4000'' [] =
       (Inr (), [UpdateLandDetails 7 1 1000000000000000000, TxWait (TransactionResponse 5),
                 ReloadLands, OnClose])"
  by (simp add: handleSave_def io_defs example_defs property_7_def div_4000 Let_def
        example_toString_1 status_options_def
        del: div_RM_PER_ETH.simps example_toString.simps)

text \<open>
  C4 (as the code has it). With the wallet connected: when the parsed price \<open>x\<close> is
  \<open>\<le> 0\<close> (\<open>-Infinity\<close> included), \<open>listLandForSale\<close> and \<open>requestToBuyLand\<close> reject
  with a plain \<open>Error\<close> ("Price must be positive", "Invalid price") after
  \<open>connectAccount\<close> and before any ledger call, and \<open>listingLand\<close> rejects without
  having issued a ledger call. When \<open>x\<close> is \<open>NaN\<close> or \<open>+Infinity\<close> the guard
  \<open>ethValue <= 0\<close> does not fire: \<open>listLandForSale\<close> hands the number's text to
  \<open>ethers.parseEther\<close> and rejects, with the error of \<open>parseEther\<close>, exactly when
  \<open>parseEther\<close> rejects that text.
\<close>

theorem price_guard:
  assumes "getWeb3ProviderAndSigner e = Inr (Some s)"
    and "signer_getAddress e s = Inr a"
  shows "(le_zero (parseFloat e pr) \<longrightarrow>
            listLandForSale e lid pr [] =
              (Inl (Error ''Price must be positive''), [GetWeb3ProviderAndSigner, GetAddress s])
          \<and> requestToBuyLand e lid pr [] =
              (Inl (Error ''Invalid price''), [GetWeb3ProviderAndSigner, GetAddress s])
          \<and> (\<exists>err. fst (listingLand e t l pr f u []) = Inl err)
          \<and> filter ledger_call (snd (listingLand e t l pr f u [])) = [])
       \<and> (parseFloat e pr = NaN \<or> parseFloat e pr = PosInfinity \<longrightarrow>
            listLandForSale e lid pr [] =
              (case parseEther e (number_toString e (parseFloat e pr)) of
                 Inl err \<Rightarrow> (Inl err, [GetWeb3ProviderAndSigner, GetAddress s])
               | Inr w \<Rightarrow> (contract_listLandForSale e lid w,
                            [GetWeb3ProviderAndSigner, GetAddress s, ListLandForSale lid w])))"
proof (intro conjI impI)
  assume le: "le_zero (parseFloat e pr)"
  note le' = le_zero_div_RM_PER_ETH[OF le]
  show "listLandForSale e lid pr [] =
          (Inl (Error ''Price must be positive''), [GetWeb3ProviderAndSigner, GetAddress s])"
    using assms le' by (simp add: listLandForSale_def connectAccount_def io_defs Let_def)
  show "requestToBuyLand e lid pr [] =
          (Inl (Error ''Invalid price''), [GetWeb3ProviderAndSigner, GetAddress s])"
    using assms le' by (simp add: requestToBuyLand_def connectAccount_def io_defs Let_def)
  show "\<exists>err. fst (listingLand e t l pr f u []) = Inl err"
    using assms le'
    by (simp add: listingLand_def connectAccount_def io_defs Let_def
          split: sum.splits option.splits list.splits)
  show "filter ledger_call (snd (listingLand e t l pr f u [])) = []"
    using assms le'
    by (simp add: listingLand_def connectAccount_def io_defs Let_def
          split: sum.splits option.splits list.splits)
next
  assume "parseFloat e pr = NaN \<or> parseFloat e pr = PosInfinity"
  then show "listLandForSale e lid pr [] =
              (case parseEther e (number_toString e (parseFloat e pr)) of
                 Inl err \<Rightarrow> (Inl err, [GetWeb3ProviderAndSigner, GetAddress s])
               | Inr w \<Rightarrow> (contract_listLandForSale e lid w,
                            [GetWeb3ProviderAndSigner, GetAddress s, ListLandForSale lid w]))"
    using assms
    by (auto simp: listLandForSale_def connectAccount_def io_defs Let_def split: sum.splits)
qed

theorem price_guard_witness:
  "listLandForSale env_ok ''7'' ''-5'' [] =
     (Inl (Error ''Price must be positive''),
      [GetWeb3ProviderAndSigner, GetAddress (JsonRpcSigner 0)])
   \<and> requestToBuyLand env_ok ''7'' ''-5'' [] =
     (Inl (Error ''Invalid price''), [GetWeb3ProviderAndSigner, GetAddress (JsonRpcSigner 0)])
   \<and> filter ledger_call
        (snd (listingLand env_ok ''GRN 7'' ''Residential'' ''-5'' ''deed.pdf'' ''alice'' [])) = []
   \<and> listLandForSale env_ok ''7'' ''abc'' [] =
     (Inl (Error ''invalid FixedNumber string value''),
      [GetWeb3ProviderAndSigner, GetAddress (JsonRpcSigner 0)])"
proof -
  have c: "getWeb3ProviderAndSigner env_ok = Inr (Some (JsonRpcSigner 0))"
    "signer_getAddress env_ok (JsonRpcSigner 0) = Inr ''0xSeller''"
    by (simp_all add: env_ok_def)
  have neg: "le_zero (parseFloat env_ok ''-5'')"
    and nan: "parseFloat env_ok ''abc'' = NaN \<or> parseFloat env_ok ''abc'' = PosInfinity"
    by (simp_all add: env_ok_def example_parseFloat_def)
  have rej: "parseEther env_ok (number_toString env_ok (parseFloat env_ok ''abc''))
               = Inl (Error ''invalid FixedNumber string value'')"
    by (simp add: env_ok_def example_parseFloat_def example_parseEther_def)
  from price_guard[OF c, of "''-5''" "''7''" "''GRN 7''" "''Residential''" "''deed.pdf''" "''alice''"]
    neg
  have "listLandForSale env_ok ''7'' ''-5'' [] =
     (Inl (Error ''Price must be positive''),
      [GetWeb3ProviderAndSigner, GetAddress (JsonRpcSigner 0)])
   \<and> requestToBuyLand env_ok ''7'' ''-5'' [] =
     (Inl (Error ''Invalid price''), [GetWeb3ProviderAndSigner, GetAddress (JsonRpcSigner 0)])
   \<and> filter ledger_call
        (snd (listingLand env_ok ''GRN 7'' ''Residential'' ''-5'' ''deed.pdf'' ''alice'' [])) = []"
    by blast
  moreover from price_guard[OF c, of "''abc''" "''7''"] nan
  have "listLandForSale env_ok ''7'' ''abc'' [] =
     (Inl (Error ''invalid FixedNumber string value''),
      [GetWeb3ProviderAndSigner, GetAddress (JsonRpcSigner 0)])"
    by (simp only: rej sum.case)
  ultimately show ?thesis by blast
qed

text \<open>
  \<open>listingLand\<close> with the price "0": the error is a plain \<open>Error\<close>, and it comes after
  the Kavach challenge, the signature and both Lighthouse uploads.
\<close>

theorem listingLand_uploads_before_price_check:
  "listingLand env_ok ''GRN 7'' ''Residential'' ''0'' ''deed.pdf'' ''alice'' [] =
     (Inl (Error ''Price must be at least MYR 4000''),
      [GetWeb3ProviderAndSigner, GetAddress (JsonRpcSigner 0),
       GetAuthMessage ''0xSeller'', SignMessage (JsonRpcSigner 0) (Some ''challenge''),
       UploadEncrypted ''deed.pdf'' ''key'' ''0xSeller'' ''sig'',
       Upload [(''titleNumber'', ''GRN 7''), (''landType'', ''Residential''),
               (''username'', ''alice''), (''area'', ''100 m2''), (''geranCid'', ''QmGeran''),
               (''timestamp'', ''2025-06-01T00:00:00.000Z'')] ''key''])"
  by (simp add: listingLand_def connectAccount_def io_defs example_defs div_0 Let_def
        del: div_RM_PER_ETH.simps)

text \<open>
  C7 (as the code has it). Take a price text whose number \<open>x\<close> lies between 0.01 and
  \<open>10 ^ 20\<close>, with the wallet connected. If \<open>ethers.parseEther\<close> accepts the text of
  \<open>x / RM_PER_ETH\<close>, giving \<open>w\<close> wei, and the ETH text of \<open>w\<close> reads back as that same
  number, then \<open>listLandForSale\<close> sends \<open>w\<close> to the ledger, and the RM text that
  \<open>fetchAllLands\<close> shows for \<open>w\<close> is the two-decimal text of \<open>n\<close> hundredths, where
  \<open>n / 100\<close> is within \<open>0.005 + x / 2 ^ 51\<close> of \<open>x\<close>. The rounding is the half-up
  rounding of \<open>toFixed(2)\<close>, to the hundredth of an RM; the conversion to wei does not
  round: it hands \<open>parseEther\<close> the text of the quotient as it is.
\<close>

theorem price_round_trip:
  assumes "getWeb3ProviderAndSigner e = Inr (Some s)"
    and "signer_getAddress e s = Inr a"
    and "parseFloat e pr = Finite x"
    and lo: "1 / 100 \<le> x" and hi: "x \<le> 10 ^ 20"
    and "parseEther e (number_toString e (div_RM_PER_ETH (Finite x))) = Inr w"
    and "parseFloat e (formatEther e w) = div_RM_PER_ETH (Finite x)"
  shows "listLandForSale e lid pr [] =
           (contract_listLandForSale e lid w,
            [GetWeb3ProviderAndSigner, GetAddress s, ListLandForSale lid w])
         \<and> (\<exists>n. priceRM_of_wei e w = fixed2_text n
                \<and> \<bar>of_int n / 100 - x\<bar> \<le> 1 / 200 + x / 2 ^ 51)"
proof -
  from div_mul_error[OF lo hi] obtain d y
    where d: "div_RM_PER_ETH (Finite x) = Finite d"
      and y: "mul_RM_PER_ETH (Finite d) = Finite y"
      and ye: "\<bar>y - x\<bar> \<le> x / 2 ^ 51" by blast
  have e51: "x / 2 ^ 51 \<le> x / 2" using lo by (intro divide_left_mono) simp_all
  have hi': "x \<le> 100000000000000000000" using hi by simp
  have ylo: "0 < y" using ye e51 lo by linarith
  have "y < 1000000000000000000000" using ye e51 lo hi' by linarith
  then have yhi: "y < 10 ^ 21" by simp
  have dpos: "\<not> le_zero (Finite d)"
  proof
    assume "le_zero (Finite d)"
    then have "d \<le> 0" by simp
    then have "le_zero (mul_RM_PER_ETH (Finite d))"
      by (simp add: RM_PER_ETH_def le_zero_round64 mult_nonpos_nonneg)
    with y ylo show False by simp
  qed
  have 1: "listLandForSale e lid pr [] =
           (contract_listLandForSale e lid w,
            [GetWeb3ProviderAndSigner, GetAddress s, ListLandForSale lid w])"
    using assms(1-3,6) dpos d
    by (simp add: listLandForSale_def connectAccount_def io_defs Let_def
          del: div_RM_PER_ETH.simps)
  have "priceRM_of_wei e w = fixed2_text (cents y)"
    using assms(7) d y ylo yhi
    by (simp add: priceRM_of_wei_def toFixed2_def Let_def
          del: div_RM_PER_ETH.simps mul_RM_PER_ETH.simps)
  moreover have "\<bar>of_int (cents y) / 100 - x\<bar> \<le> 1 / 200 + x / 2 ^ 51"
    using cents_error[of y] ye by linarith
  ultimately show ?thesis using 1 by blast
qed

theorem price_round_trip_witness:
  "listLandForSale env_ok ''7'' ''4000'' [] =
     (Inr (TransactionResponse 3),
      [GetWeb3ProviderAndSigner, GetAddress (JsonRpcSigner 0),
       ListLandForSale ''7'' 1000000000000000000])
   \<and> (\<exists>n. priceRM_of_wei env_ok 1000000000000000000 = fixed2_text n
          \<and> \<bar>of_int n / 100 - 4000\<bar> \<le> (1 / 200 + 4000 / 2 ^ 51 :: rat))"
proof -
  have h1: "getWeb3ProviderAndSigner env_ok = Inr (Some (JsonRpcSigner 0))"
    and h2: "signer_getAddress env_ok (JsonRpcSigner 0) = Inr ''0xSeller''"
    and h3: "parseFloat env_ok ''4000'' = Finite 4000"
    by (simp_all add: env_ok_def example_parseFloat_def)
  have h4: "(1 / 100 :: rat) \<le> 4000" and h5: "(4000 :: rat) \<le> 10 ^ 20" by simp_all
  have h6: "parseEther env_ok (number_toString env_ok (div_RM_PER_ETH (Finite 4000)))
              = Inr 1000000000000000000"
    by (simp add: example_defs div_4000 example_toString_1
          del: div_RM_PER_ETH.simps example_toString.simps)
  have h7: "parseFloat env_ok (formatEther env_ok 1000000000000000000)
              = div_RM_PER_ETH (Finite 4000)"
    by (simp add: example_defs div_4000 del: div_RM_PER_ETH.simps)
  from price_round_trip[OF h1 h2 h3 h4 h5 h6 h7, of "''7''"] show ?thesis
    by (simp add: env_ok_def)
qed

text \<open>
  The price 1.125: the ledger is sent 281250000000000 wei, and the text shown for them is
  "1.13", which is 0.005 away from the price and not less than the worth of one wei,
  \<open>4000 / 10 ^ 18\<close>.
\<close>

theorem price_round_trip_counterexample:
  "listLandForSale env_ok ''7'' ''1.125'' [] =
     (Inr (TransactionResponse 3),
      [GetWeb3ProviderAndSigner, GetAddress (JsonRpcSigner 0),
       ListLandForSale ''7'' 281250000000000])
   \<and> priceRM_of_wei env_ok 281250000000000 = ''1.13''
   \<and> \<not> \<bar>113 / 100 - 9 / 8\<bar> < (4000 / 10 ^ 18 :: rat)"
proof -
  have ts: "example_toString (Finite (5188146770730811 / 18446744073709551616)) = ''0.00028125''"
    by simp
  have "listLandForSale env_ok ''7'' ''1.125'' [] =
     (Inr (TransactionResponse 3),
      [GetWeb3ProviderAndSigner, GetAddress (JsonRpcSigner 0),
       ListLandForSale ''7'' 281250000000000])"
    by (simp add: listLandForSale_def connectAccount_def io_defs Let_def example_defs div_9_8 ts
          del: div_RM_PER_ETH.simps example_toString.simps)
  moreover have "\<not> \<bar>113 / 100 - 9 / 8\<bar> < (4000 / 10 ^ 18 :: rat)"
    by simp
  ultimately show ?thesis
    using priceRM_of_wei_example(2) by blast
qed

subsection \<open>Aggregation\<close>

lemma call_async_after: "fst (call_async c) = after 0 c"
  by (simp add: call_async_def after_def split: prod.splits list.splits)


lemma answer_after:
  assumes "k < length (promises st)" and "promises st ! k = after m c"
  shows "promises (answer st k) = (promises st)[k := after (Suc m) c]"
    and "issued_calls (answer st k) = issued_calls st @ next_call (Suc m) c"
proof -
  obtain r xs where c: "c [] = (r, xs)" by (cases "c []")
  show "promises (answer st k) = (promises st)[k := after (Suc m) c]"
  proof (cases "length xs \<le> m")
    case True
    with assms c have "promises st ! k = Done r" by (simp add: after_def)
    then have "(promises st)[k := Done r] = promises st"
      by (metis list_update_id)
    with True assms c show ?thesis by (simp add: answer_def after_def)
  next
    case False
    show ?thesis
    proof (cases "drop (Suc m) xs")
      case Nil
      with False assms c show ?thesis by (simp add: answer_def after_def)
    next
      case (Cons y ys)
      then have "ys = drop (Suc (Suc m)) xs"
        by (metis drop_Suc list.sel(3) tl_drop)
      moreover from Cons have "\<not> length xs \<le> Suc m" by auto
      ultimately show ?thesis using Cons False assms c by (simp add: answer_def after_def)
    qed
  qed
  show "issued_calls (answer st k) = issued_calls st @ next_call (Suc m) c"
  proof (cases "length xs \<le> m")
    case True
    with assms c show ?thesis by (simp add: answer_def after_def next_call_def)
  next
    case False
    show ?thesis
    proof (cases "drop (Suc m) xs")
      case Nil
      with False assms c show ?thesis by (simp add: answer_def after_def next_call_def)
    next
      case (Cons y ys)
      then have "\<not> length xs \<le> Suc m" by auto
      moreover from Cons have "y = xs ! Suc m"
        by (metis Cons_nth_drop_Suc calculation list.inject not_le)
      ultimately show ?thesis using Cons False assms c
        by (simp add: answer_def after_def next_call_def)
    qed
  qed
qed

lemma answer_length: "length (promises (answer st k)) = length (promises st)"
  by (simp add: answer_def split: promise.splits list.splits)

lemma answer_out_of_range: "\<not> k < length (promises st) \<Longrightarrow> answer st k = st"
  by (simp add: answer_def)

lemma promises_after:
  "promises (foldl answer (map_async cs tr) as) =
     map (\<lambda>k. after (count_list as k) (cs ! k)) [0..<length cs]"
proof (induction as rule: rev_induct)
  case Nil
  show ?case
    by (auto simp: map_async_def call_async_after intro!: nth_equalityI)
next
  case (snoc k as)
  let ?st = "foldl answer (map_async cs tr) as"
  show ?case
  proof (cases "k < length cs")
    case False
    then have "answer ?st k = ?st" by (intro answer_out_of_range) (simp add: snoc)
    moreover from False have "\<forall>j < length cs. count_list (as @ [k]) j = count_list as j" by auto
    ultimately show ?thesis using snoc by (auto intro!: nth_equalityI)
  next
    case True
    then have k: "k < length (promises ?st)" by (simp add: snoc)
    have at: "promises ?st ! k = after (count_list as k) (cs ! k)"
      using True by (simp add: snoc)
    show ?thesis
      using True by (auto simp: answer_after(1)[OF k at] snoc nth_list_update intro!: nth_equalityI)
  qed
qed



lemma rejections_none: "\<forall>p \<in> set ps. \<forall>x. p \<noteq> Done (Inl x) \<Longrightarrow> rejections ps = []"
  by (induction ps rule: rejections.induct) auto

lemma after_not_rejected: "fst (c []) = Inr v \<Longrightarrow> after m c \<noteq> Done (Inl x)"
  by (auto simp: after_def split: prod.splits)

lemma answer_no_rejection:
  assumes "first_rejection st = None"
    and "\<And>r. promises st ! k = Waiting [] r \<Longrightarrow> \<exists>v. r = Inr v"
  shows "first_rejection (answer st k) = None"
  using assms by (auto simp: answer_def split: promise.splits list.splits)

lemma first_rejection_none:
  assumes "\<forall>c \<in> set cs. \<exists>v. fst (c []) = Inr v"
  shows "first_rejection (foldl answer (map_async cs tr) as) = None"
proof (induction as rule: rev_induct)
  case Nil
  have "rejections (map (\<lambda>c. fst (call_async c)) cs) = []"
    using assms by (intro rejections_none) (auto simp: call_async_after after_not_rejected)
  then show ?case by (simp add: map_async_def)
next
  case (snoc k as)
  let ?st = "foldl answer (map_async cs tr) as"
  show ?case
  proof (cases "k < length cs")
    case False
    then have "answer ?st k = ?st" by (intro answer_out_of_range) (simp add: promises_after)
    with snoc show ?thesis by simp
  next
    case True
    then have "cs ! k \<in> set cs" by simp
    with assms obtain v where v: "fst ((cs ! k) []) = Inr v" by blast
    have at: "promises ?st ! k = after (count_list as k) (cs ! k)"
      using True by (simp add: promises_after)
    have "\<exists>v. r = Inr v" if "promises ?st ! k = Waiting [] r" for r
      using that v unfolding at by (auto simp: after_def split: prod.splits if_splits)
    with snoc have "first_rejection (answer ?st k) = None"
      by (intro answer_no_rejection) auto
    then show ?thesis by simp
  qed
qed

lemma fulfilled_map: "fulfilled (map (\<lambda>x. Done (Inr (f x))) xs) = Some (map f xs)"
  by (induction xs) auto

lemma fulfilled_waiting: "Waiting ys r \<in> set ps \<Longrightarrow> fulfilled ps = None"
  by (induction ps rule: fulfilled.induct) auto

lemma after_done:
  "fst (c []) = Inr v \<Longrightarrow> length (snd (c [])) \<le> m \<Longrightarrow> after m c = Done (Inr v)"
  by (auto simp: after_def split: prod.splits)

lemma after_waiting:
  "\<not> length (snd (c [])) \<le> m \<Longrightarrow> \<exists>ys r. after m c = Waiting ys r"
  by (auto simp: after_def split: prod.splits)

lemma Promise_all_resolved:
  assumes "\<forall>c \<in> set cs. \<exists>v. fst (c []) = Inr v"
  shows "Promise_all (foldl answer (map_async cs tr) as) =
           (if \<forall>k < length cs. length (snd ((cs ! k) [])) \<le> count_list as k
            then Some (Inr (map (\<lambda>c. projr (fst (c []))) cs))
            else None)"
proof (cases "\<forall>k < length cs. length (snd ((cs ! k) [])) \<le> count_list as k")
  case True
  have "after (count_list as k) (cs ! k) = Done (Inr (projr (fst ((cs ! k) []))))"
    if "k < length cs" for k
  proof -
    from that have "cs ! k \<in> set cs" by simp
    with assms obtain v where "fst ((cs ! k) []) = Inr v" by blast
    with True that show ?thesis by (simp add: after_done)
  qed
  then have "promises (foldl answer (map_async cs tr) as) =
      map (\<lambda>k. Done (Inr (projr (fst ((cs ! k) []))))) [0..<length cs]"
    by (simp add: promises_after)
  then have "fulfilled (promises (foldl answer (map_async cs tr) as)) =
      Some (map (\<lambda>k. projr (fst ((cs ! k) []))) [0..<length cs])"
    by (simp only: fulfilled_map)
  moreover have "map (\<lambda>k. projr (fst ((cs ! k) []))) [0..<length cs] =
      map (\<lambda>c. projr (fst (c []))) cs"
    by (rule nth_equalityI) simp_all
  ultimately show ?thesis
    using True by (simp add: Promise_all_def first_rejection_none[OF assms])
next
  case False
  then obtain k where k: "k < length cs" "\<not> length (snd ((cs ! k) [])) \<le> count_list as k"
    by auto
  from after_waiting[of "cs ! k" "count_list as k", OF k(2)] obtain ys r where
    "after (count_list as k) (cs ! k) = Waiting ys r" by blast
  then have "Waiting ys r \<in> set (promises (foldl answer (map_async cs tr) as))"
    using k(1) by (auto simp: promises_after image_iff intro!: bexI[of _ k])
  then have "fulfilled (promises (foldl answer (map_async cs tr) as)) = None"
    by (rule fulfilled_waiting)
  with False show ?thesis
    by (simp add: Promise_all_def first_rejection_none[OF assms])
qed


lemma fetch_jsonMeta_cases:
  "fetch_jsonMeta e c tr =
     (case fetch e (gateway_url c) of
        Inl err \<Rightarrow> (Inr None, tr @ [Fetch (gateway_url c)])
      | Inr resp \<Rightarrow>
          if ok resp
          then (case json resp of
                  Inl err \<Rightarrow> (Inr None, tr @ [Fetch (gateway_url c), ResponseJson (gateway_url c)])
                | Inr body \<Rightarrow> (Inr body, tr @ [Fetch (gateway_url c), ResponseJson (gateway_url c)]))
          else (Inr None, tr @ [Fetch (gateway_url c)]))"
  by (simp add: fetch_jsonMeta_def io_defs split: sum.splits)


lemma fetch_jsonMeta_resolves: "\<exists>jm. fst (fetch_jsonMeta e c tr) = Inr jm"
  by (simp add: fetch_jsonMeta_cases split: sum.splits)


lemma fetch_jsonMeta_trace:
  "fetch_jsonMeta e c tr = (fst (fetch_jsonMeta e c []), tr @ snd (fetch_jsonMeta e c []))"
  by (simp add: fetch_jsonMeta_cases split: sum.splits)


lemma getYourLands_fetchPromise_alone:
  assumes "contract_getLand e i = Inr (l, ow, p)"
  shows "getYourLands_fetchPromise e i [] =
     (Inr (case projr (fst (fetch_jsonMeta e p [])) of
             None \<Rightarrow>
               \<lparr>yourLand.landId = int_toString i,
                yourLand.status = onchain.status l,
                yourLand.titleNumber = JString '''',
                yourLand.landType = JString '''',
                yourLand.username = JString '''',
                yourLand.priceRM = JString '''',
                yourLand.area = JString '''',
                yourLand.geranCid = JString '''',
                yourLand.geranUrl = '''',
                yourLand.timestamp = JString '''',
                yourLand.owner = ow,
                yourLand.metadataCID = onchain.metadataCID l\<rparr>
           | Some m \<Rightarrow>
               \<lparr>yourLand.landId = int_toString i,
                yourLand.status = onchain.status l,
                yourLand.titleNumber = prop_of m ''titleNumber'',
                yourLand.landType = prop_of m ''landType'',
                yourLand.username = prop_of m ''username'',
                yourLand.priceRM = prop_of m ''priceRM'',
                yourLand.area = prop_of m ''area'',
                yourLand.geranCid = prop_of m ''geranCid'',
                yourLand.geranUrl = gateway_url (to_String (prop_of m ''geranCid'')),
                yourLand.timestamp = prop_of m ''timestamp'',
                yourLand.owner = ow,
                yourLand.metadataCID = onchain.metadataCID l\<rparr>),
      GetLand i # snd (fetch_jsonMeta e p []))"
proof -
  obtain jm where jm: "fst (fetch_jsonMeta e p [GetLand i]) = Inr jm"
    using fetch_jsonMeta_resolves by blast
  then have jm0: "fst (fetch_jsonMeta e p []) = Inr jm"
    by (subst (asm) fetch_jsonMeta_trace) simp
  have "fetch_jsonMeta e p [GetLand i] = (Inr jm, GetLand i # snd (fetch_jsonMeta e p []))"
    using jm0 by (subst fetch_jsonMeta_trace) simp
  then show ?thesis
    using assms jm0
    by (simp add: getYourLands_fetchPromise_def io_defs split: option.splits)
qed

lemma fetchAllLands_fetchPromise_alone:
  assumes "contract_getLand e i = Inr (l, ow, p)"
    and "contract_landPrices e (OfBigint i) = Inr w"
  shows "fetchAllLands_fetchPromise e i [] =
     (Inr (case projr (fst (fetch_jsonMeta e p [])) of
             None \<Rightarrow>
               \<lparr>yourLand.landId = int_toString i,
                yourLand.status = onchain.status l,
                yourLand.titleNumber = JString '''',
                yourLand.landType = JString '''',
                yourLand.username = JString '''',
                yourLand.priceRM = JString (priceRM_of_wei e w),
                yourLand.area = JString '''',
                yourLand.geranCid = JString '''',
                yourLand.geranUrl = '''',
                yourLand.timestamp = JString '''',
                yourLand.owner = ow,
                yourLand.metadataCID = onchain.metadataCID l\<rparr>
           | Some m \<Rightarrow>
               \<lparr>yourLand.landId = int_toString i,
                yourLand.status = onchain.status l,
                yourLand.titleNumber = prop_of m ''titleNumber'',
                yourLand.landType = prop_of m ''landType'',
                yourLand.username = prop_of m ''username'',
                yourLand.priceRM = JString (priceRM_of_wei e w),
                yourLand.area = prop_of m ''area'',
                yourLand.geranCid = prop_of m ''geranCid'',
                yourLand.geranUrl = gateway_url (to_String (prop_of m ''geranCid'')),
                yourLand.timestamp = prop_of m ''timestamp'',
                yourLand.owner = ow,
                yourLand.metadataCID = onchain.metadataCID l\<rparr>),
      GetLand i # LandPrices (OfBigint i) # snd (fetch_jsonMeta e p []))"
proof -
  obtain jm where jm: "fst (fetch_jsonMeta e p [GetLand i, LandPrices (OfBigint i)]) = Inr jm"
    using fetch_jsonMeta_resolves by blast
  then have jm0: "fst (fetch_jsonMeta e p []) = Inr jm"
    by (subst (asm) fetch_jsonMeta_trace) simp
  have "fetch_jsonMeta e p [GetLand i, LandPrices (OfBigint i)] =
          (Inr jm, GetLand i # LandPrices (OfBigint i) # snd (fetch_jsonMeta e p []))"
    using jm0 by (subst fetch_jsonMeta_trace) simp
  then show ?thesis
    using assms jm0
    by (simp add: fetchAllLands_fetchPromise_def io_defs split: option.splits)
qed


lemma getYourLands_fetchPromise_first: "next_call 0 (getYourLands_fetchPromise e i) = [GetLand i]"
  by (simp add: next_call_def getYourLands_fetchPromise_def
        fetch_jsonMeta_cases io_defs Let_def split: sum.splits prod.splits option.splits)



lemma getYourLands_fetchPromise_calls: "length (snd (getYourLands_fetchPromise e i [])) \<le> 3"
  by (simp add: getYourLands_fetchPromise_def
        fetch_jsonMeta_cases io_defs split: sum.splits prod.splits option.splits)

lemma fetchAllLands_fetchPromise_calls: "length (snd (fetchAllLands_fetchPromise e i [])) \<le> 4"
  by (simp add: fetchAllLands_fetchPromise_def
        fetch_jsonMeta_cases io_defs split: sum.splits prod.splits option.splits)


lemma getYourLands_resolved:
  assumes "contract_getOwnedLands e u = Inr ids"
    and "\<forall>i \<in> set ids. contract_getLand e i = Inr (land i, own i, pub i)"
  shows "fst (getYourLands e u as tr) =
     (if \<forall>k < length ids. length (snd (getYourLands_fetchPromise e (ids ! k) [])) \<le> count_list as k
      then Some (Inr (map (\<lambda>i. projr (fst (getYourLands_fetchPromise e i []))) ids))
      else None)"
proof -
  have "\<forall>c \<in> set (map (getYourLands_fetchPromise e) ids). \<exists>v. fst (c []) = Inr v"
    using assms(2) by (auto simp: getYourLands_fetchPromise_alone)
  from Promise_all_resolved[OF this, of "tr @ [GetOwnedLands u]" as] show ?thesis
    using assms(1) by (simp add: getYourLands_def Let_def comp_def)
qed

lemma fetchAllLands_resolved:
  assumes "contract_getAllLandIds e = Inr ids"
    and "\<forall>i \<in> set ids. contract_getLand e i = Inr (land i, own i, pub i)"
    and "\<forall>i \<in> set ids. contract_landPrices e (OfBigint i) = Inr (price i)"
  shows "fst (fetchAllLands e as tr) =
     (if \<forall>k < length ids. length (snd (fetchAllLands_fetchPromise e (ids ! k) [])) \<le> count_list as k
      then Some (Inr (map (\<lambda>i. projr (fst (fetchAllLands_fetchPromise e i []))) ids))
      else None)"
proof -
  have "\<forall>c \<in> set (map (fetchAllLands_fetchPromise e) ids). \<exists>v. fst (c []) = Inr v"
    using assms(2,3) by (auto simp: fetchAllLands_fetchPromise_alone)
  from Promise_all_resolved[OF this, of "tr @ [GetAllLandIds]" as] show ?thesis
    using assms(1) by (simp add: fetchAllLands_def Let_def comp_def)
qed














lemma env_ok_document:
  "fetch_jsonMeta env_ok (pub_7 i) [] =
     (if i = 8
      then (Inr None, [Fetch ''https://gateway.lighthouse.storage/ipfs/QmBad''])
      else (Inr (Some meta_7),
            [Fetch ''https://gateway.lighthouse.storage/ipfs/QmGood'',
             ResponseJson ''https://gateway.lighthouse.storage/ipfs/QmGood'']))"
  by (simp add: fetch_jsonMeta_cases env_ok_def pub_7_def gateway_url_def)

lemma count_round_robin:
  "(k :: nat) < 3 \<Longrightarrow> count_list [2, 1, 0, 2, 1, 0, 2, 1, 0, 2, 1, 0] k = 4"
  by (auto simp: less_Suc_eq numeral_3_eq_3)




text \<open>
  C6 (as the code has it). When the ledger answers for every identifier, \<open>getYourLands\<close>
  and \<open>fetchAllLands\<close> never reject because a metadata resolution failed: whatever the
  order of the answers, the returned promise is pending until the calls of every closure
  are answered (at most three and four for a closure) and is then fulfilled with one
  record for each identifier. The record of an identifier whose resolution failed has the
  identifier, the status, the owner and the metadata CID of the chain, and every
  descriptive field is the empty string: there is no "unavailable" marker. The price is
  filled in from the chain by \<open>fetchAllLands\<close> only; \<open>getYourLands\<close> takes the price
  from the metadata and leaves it empty as well.
\<close>

theorem resolution_failure_leaves_empty_strings:
  assumes owned: "contract_getOwnedLands e u = Inr ids"
    and all: "contract_getAllLandIds e = Inr all_ids"
    and lands: "\<forall>i \<in> set ids \<union> set all_ids. contract_getLand e i = Inr (land i, own i, pub i)"
    and prices: "\<forall>i \<in> set all_ids. contract_landPrices e (OfBigint i) = Inr (price i)"
  shows "\<exists>ys zs.
      (\<forall>as. fst (getYourLands e u as []) =
          (if \<forall>k < length ids.
                length (snd (getYourLands_fetchPromise e (ids ! k) [])) \<le> count_list as k
           then Some (Inr ys) else None))
    \<and> length ys = length ids
    \<and> (\<forall>as. fst (fetchAllLands e as []) =
          (if \<forall>k < length all_ids.
                length (snd (fetchAllLands_fetchPromise e (all_ids ! k) [])) \<le> count_list as k
           then Some (Inr zs) else None))
    \<and> length zs = length all_ids
    \<and> (\<forall>i. length (snd (getYourLands_fetchPromise e i [])) \<le> 3
            \<and> length (snd (fetchAllLands_fetchPromise e i [])) \<le> 4)
    \<and> (\<forall>k < length ids. fst (fetch_jsonMeta e (pub (ids ! k)) []) = Inr None \<longrightarrow>
          ys ! k = \<lparr>yourLand.landId = int_toString (ids ! k),
                    yourLand.status = onchain.status (land (ids ! k)),
                    yourLand.titleNumber = JString '''',
                    yourLand.landType = JString '''',
                    yourLand.username = JString '''',
                    yourLand.priceRM = JString '''',
                    yourLand.area = JString '''',
                    yourLand.geranCid = JString '''',
                    yourLand.geranUrl = '''',
                    yourLand.timestamp = JString '''',
                    yourLand.owner = own (ids ! k),
                    yourLand.metadataCID = onchain.metadataCID (land (ids ! k))\<rparr>)
    \<and> (\<forall>k < length all_ids. fst (fetch_jsonMeta e (pub (all_ids ! k)) []) = Inr None \<longrightarrow>
          zs ! k = \<lparr>yourLand.landId = int_toString (all_ids ! k),
                    yourLand.status = onchain.status (land (all_ids ! k)),
                    yourLand.titleNumber = JString '''',
                    yourLand.landType = JString '''',
                    yourLand.username = JString '''',
                    yourLand.priceRM = JString (priceRM_of_wei e (price (all_ids ! k))),
                    yourLand.area = JString '''',
                    yourLand.geranCid = JString '''',
                    yourLand.geranUrl = '''',
                    yourLand.timestamp = JString '''',
                    yourLand.owner = own (all_ids ! k),
                    yourLand.metadataCID = onchain.metadataCID (land (all_ids ! k))\<rparr>)"
proof -
  let ?ys = "map (\<lambda>i. projr (fst (getYourLands_fetchPromise e i []))) ids"
  let ?zs = "map (\<lambda>i. projr (fst (fetchAllLands_fetchPromise e i []))) all_ids"
  have lands1: "\<forall>i \<in> set ids. contract_getLand e i = Inr (land i, own i, pub i)"
    and lands2: "\<forall>i \<in> set all_ids. contract_getLand e i = Inr (land i, own i, pub i)"
    using lands by auto
  have r1: "\<forall>as. fst (getYourLands e u as []) =
          (if \<forall>k < length ids.
                length (snd (getYourLands_fetchPromise e (ids ! k) [])) \<le> count_list as k
           then Some (Inr ?ys) else None)"
    using getYourLands_resolved[OF owned lands1] by blast
  have r2: "\<forall>as. fst (fetchAllLands e as []) =
          (if \<forall>k < length all_ids.
                length (snd (fetchAllLands_fetchPromise e (all_ids ! k) [])) \<le> count_list as k
           then Some (Inr ?zs) else None)"
    using fetchAllLands_resolved[OF all lands2 prices] by blast
  have bd: "\<forall>i. length (snd (getYourLands_fetchPromise e i [])) \<le> 3
            \<and> length (snd (fetchAllLands_fetchPromise e i [])) \<le> 4"
    by (simp add: getYourLands_fetchPromise_calls fetchAllLands_fetchPromise_calls)
  have a: "?ys ! k = \<lparr>yourLand.landId = int_toString (ids ! k),
                    yourLand.status = onchain.status (land (ids ! k)),
                    yourLand.titleNumber = JString '''',
                    yourLand.landType = JString '''',
                    yourLand.username = JString '''',
                    yourLand.priceRM = JString '''',
                    yourLand.area = JString '''',
                    yourLand.geranCid = JString '''',
                    yourLand.geranUrl = '''',
                    yourLand.timestamp = JString '''',
                    yourLand.owner = own (ids ! k),
                    yourLand.metadataCID = onchain.metadataCID (land (ids ! k))\<rparr>"
    if "k < length ids" and "fst (fetch_jsonMeta e (pub (ids ! k)) []) = Inr None" for k
  proof -
    have "contract_getLand e (ids ! k) = Inr (land (ids ! k), own (ids ! k), pub (ids ! k))"
      using lands1 that(1) by simp
    from getYourLands_fetchPromise_alone[OF this] show ?thesis
      using that by simp
  qed
  have b: "?zs ! k = \<lparr>yourLand.landId = int_toString (all_ids ! k),
                    yourLand.status = onchain.status (land (all_ids ! k)),
                    yourLand.titleNumber = JString '''',
                    yourLand.landType = JString '''',
                    yourLand.username = JString '''',
                    yourLand.priceRM = JString (priceRM_of_wei e (price (all_ids ! k))),
                    yourLand.area = JString '''',
                    yourLand.geranCid = JString '''',
                    yourLand.geranUrl = '''',
                    yourLand.timestamp = JString '''',
                    yourLand.owner = own (all_ids ! k),
                    yourLand.metadataCID = onchain.metadataCID (land (all_ids ! k))\<rparr>"
    if "k < length all_ids" and "fst (fetch_jsonMeta e (pub (all_ids ! k)) []) = Inr None" for k
  proof -
    have "contract_getLand e (all_ids ! k) =
            Inr (land (all_ids ! k), own (all_ids ! k), pub (all_ids ! k))"
      and "contract_landPrices e (OfBigint (all_ids ! k)) = Inr (price (all_ids ! k))"
      using lands2 prices that(1) by simp_all
    from fetchAllLands_fetchPromise_alone[OF this] show ?thesis
      using that by simp
  qed
  have len: "length ?ys = length ids" "length ?zs = length all_ids" by simp_all
  show ?thesis
    apply (rule exI[of _ ?ys])
    apply (rule exI[of _ ?zs])
    using r1 r2 bd len a b apply (intro conjI)
          apply blast+
    done
qed

theorem resolution_failure_leaves_empty_strings_witness:
  "\<exists>ys zs. fst (getYourLands env_ok ''0xSeller'' [2, 1, 0, 2, 1, 0, 2, 1, 0, 2, 1, 0] []) =
              Some (Inr ys)
     \<and> length ys = 3
     \<and> fst (fetchAllLands env_ok [2, 1, 0, 2, 1, 0, 2, 1, 0, 2, 1, 0] []) = Some (Inr zs)
     \<and> length zs = 3
     \<and> ys ! 1 = \<lparr>yourLand.landId = ''8'',
                  yourLand.status = 1,
                  yourLand.titleNumber = JString '''',
                  yourLand.landType = JString '''',
                  yourLand.username = JString '''',
                  yourLand.priceRM = JString '''',
                  yourLand.area = JString '''',
                  yourLand.geranCid = JString '''',
                  yourLand.geranUrl = '''',
                  yourLand.timestamp = JString '''',
                  yourLand.owner = ''0xSeller'',
                  yourLand.metadataCID = ''QmDoc''\<rparr>
     \<and> zs ! 1 = \<lparr>yourLand.landId = ''8'',
                  yourLand.status = 1,
                  yourLand.titleNumber = JString '''',
                  yourLand.landType = JString '''',
                  yourLand.username = JString '''',
                  yourLand.priceRM = JString ''4000.00'',
                  yourLand.area = JString '''',
                  yourLand.geranCid = JString '''',
                  yourLand.geranUrl = '''',
                  yourLand.timestamp = JString '''',
                  yourLand.owner = ''0xSeller'',
                  yourLand.metadataCID = ''QmDoc''\<rparr>"
proof -
  let ?rr = "[2, 1, 0, 2, 1, 0, 2, 1, 0, 2, 1, 0] :: nat list"
  have h1: "contract_getOwnedLands env_ok ''0xSeller'' = Inr [7, 8, 9]"
    and h2: "contract_getAllLandIds env_ok = Inr [7, 8, 9]"
    and h3: "\<forall>i \<in> set [7, 8, 9] \<union> set [7, 8, 9].
               contract_getLand env_ok i = Inr (land_7 i, ''0xSeller'', pub_7 i)"
    and h4: "\<forall>i \<in> set [7, 8, 9].
               contract_landPrices env_ok (OfBigint i) = Inr 1000000000000000000"
    by (simp_all add: env_ok_def)
  have none: "fst (fetch_jsonMeta env_ok (pub_7 ([7, 8, 9] ! 1)) []) = Inr None"
    by (simp add: env_ok_document)
  have price: "priceRM_of_wei env_ok 1000000000000000000 = ''4000.00''"
    by (rule priceRM_of_wei_example)
  from resolution_failure_leaves_empty_strings[OF h1 h2 h3 h4]
  obtain ys zs where r1: "\<forall>as. fst (getYourLands env_ok ''0xSeller'' as []) =
          (if \<forall>k < length [7, 8, 9 :: int].
                length (snd (getYourLands_fetchPromise env_ok ([7, 8, 9] ! k) [])) \<le> count_list as k
           then Some (Inr ys) else None)"
    and ly: "length ys = length [7, 8, 9 :: int]"
    and r2: "\<forall>as. fst (fetchAllLands env_ok as []) =
          (if \<forall>k < length [7, 8, 9 :: int].
                length (snd (fetchAllLands_fetchPromise env_ok ([7, 8, 9] ! k) [])) \<le> count_list as k
           then Some (Inr zs) else None)"
    and lz: "length zs = length [7, 8, 9 :: int]"
    and bd: "\<forall>i. length (snd (getYourLands_fetchPromise env_ok i [])) \<le> 3
            \<and> length (snd (fetchAllLands_fetchPromise env_ok i [])) \<le> 4"
    and a: "\<forall>k < length [7, 8, 9 :: int].
          fst (fetch_jsonMeta env_ok (pub_7 ([7, 8, 9] ! k)) []) = Inr None \<longrightarrow>
          ys ! k = \<lparr>yourLand.landId = int_toString ([7, 8, 9] ! k),
                    yourLand.status = onchain.status (land_7 ([7, 8, 9] ! k)),
                    yourLand.titleNumber = JString '''',
                    yourLand.landType = JString '''',
                    yourLand.username = JString '''',
                    yourLand.priceRM = JString '''',
                    yourLand.area = JString '''',
                    yourLand.geranCid = JString '''',
                    yourLand.geranUrl = '''',
                    yourLand.timestamp = JString '''',
                    yourLand.owner = ''0xSeller'',
                    yourLand.metadataCID = onchain.metadataCID (land_7 ([7, 8, 9] ! k))\<rparr>"
    and b: "\<forall>k < length [7, 8, 9 :: int].
          fst (fetch_jsonMeta env_ok (pub_7 ([7, 8, 9] ! k)) []) = Inr None \<longrightarrow>
          zs ! k = \<lparr>yourLand.landId = int_toString ([7, 8, 9] ! k),
                    yourLand.status = onchain.status (land_7 ([7, 8, 9] ! k)),
                    yourLand.titleNumber = JString '''',
                    yourLand.landType = JString '''',
                    yourLand.username = JString '''',
                    yourLand.priceRM = JString (priceRM_of_wei env_ok 1000000000000000000),
                    yourLand.area = JString '''',
                    yourLand.geranCid = JString '''',
                    yourLand.geranUrl = '''',
                    yourLand.timestamp = JString '''',
                    yourLand.owner = ''0xSeller'',
                    yourLand.metadataCID = onchain.metadataCID (land_7 ([7, 8, 9] ! k))\<rparr>"
    by blast
  have "\<forall>k < length [7, 8, 9 :: int].
          length (snd (getYourLands_fetchPromise env_ok ([7, 8, 9] ! k) [])) \<le> count_list ?rr k"
  proof (intro allI impI)
    fix k assume "k < length [7, 8, 9 :: int]"
    then have "count_list ?rr k = 4" using count_round_robin by simp
    moreover have "length (snd (getYourLands_fetchPromise env_ok ([7, 8, 9] ! k) [])) \<le> 3"
      using bd by blast
    ultimately show
      "length (snd (getYourLands_fetchPromise env_ok ([7, 8, 9] ! k) [])) \<le> count_list ?rr k"
      by simp
  qed
  with r1 have ry: "fst (getYourLands env_ok ''0xSeller'' ?rr []) = Some (Inr ys)"
    by simp
  have "\<forall>k < length [7, 8, 9 :: int].
          length (snd (fetchAllLands_fetchPromise env_ok ([7, 8, 9] ! k) [])) \<le> count_list ?rr k"
  proof (intro allI impI)
    fix k assume "k < length [7, 8, 9 :: int]"
    then have "count_list ?rr k = 4" using count_round_robin by simp
    moreover have "length (snd (fetchAllLands_fetchPromise env_ok ([7, 8, 9] ! k) [])) \<le> 4"
      using bd by blast
    ultimately show
      "length (snd (fetchAllLands_fetchPromise env_ok ([7, 8, 9] ! k) [])) \<le> count_list ?rr k"
      by simp
  qed
  with r2 have rz: "fst (fetchAllLands env_ok ?rr []) = Some (Inr zs)"
    by simp
  have k: "(1::nat) < length [7, 8, 9 :: int]" by simp
  from a[rule_format, OF k none] b[rule_format, OF k none] ry rz ly lz show ?thesis
    by (simp add: land_7_def int_toString_789 price)
qed

text \<open>
  The owner holds parcel 8 alone and the gateway does not serve its document: the record
  is there, its descriptive fields are empty strings, and in \<open>getYourLands\<close> so is the
  price.
\<close>

theorem resolution_failure_counterexample:
  "getYourLands env_only_8 ''0xSeller'' [0, 0] [] =
     (Some (Inr [\<lparr>yourLand.landId = ''8'',
                  yourLand.status = 1,
                  yourLand.titleNumber = JString '''',
                  yourLand.landType = JString '''',
                  yourLand.username = JString '''',
                  yourLand.priceRM = JString '''',
                  yourLand.area = JString '''',
                  yourLand.geranCid = JString '''',
                  yourLand.geranUrl = '''',
                  yourLand.timestamp = JString '''',
                  yourLand.owner = ''0xSeller'',
                  yourLand.metadataCID = ''QmDoc''\<rparr>]),
      [GetOwnedLands ''0xSeller'', GetLand 8,
       Fetch ''https://gateway.lighthouse.storage/ipfs/QmBad''])
   \<and> fetchAllLands env_only_8 [0, 0, 0] [] =
     (Some (Inr [\<lparr>yourLand.landId = ''8'',
                  yourLand.status = 1,
                  yourLand.titleNumber = JString '''',
                  yourLand.landType = JString '''',
                  yourLand.username = JString '''',
                  yourLand.priceRM = JString ''4000.00'',
                  yourLand.area = JString '''',
                  yourLand.geranCid = JString '''',
                  yourLand.geranUrl = '''',
                  yourLand.timestamp = JString '''',
                  yourLand.owner = ''0xSeller'',
                  yourLand.metadataCID = ''QmDoc''\<rparr>]),
      [GetAllLandIds, GetLand 8, LandPrices (OfBigint 8),
       Fetch ''https://gateway.lighthouse.storage/ipfs/QmBad''])"
proof -
  have "priceRM_of_wei env_only_8 1000000000000000000 =
          priceRM_of_wei env_ok 1000000000000000000"
    by (simp add: priceRM_of_wei_def toFixed2_def env_only_8_def Let_def
          split: js_number.splits)
  then have price: "priceRM_of_wei env_only_8 1000000000000000000 = ''4000.00''"
    by (simp only: priceRM_of_wei_example)
  have ids: "contract_getOwnedLands env_only_8 ''0xSeller'' = Inr [8]"
    "contract_getAllLandIds env_only_8 = Inr [8]"
    by (simp_all add: env_only_8_def)
  have land: "contract_getLand env_only_8 8 = Inr (land_7 8, ''0xSeller'', pub_7 8)"
    and wei: "contract_landPrices env_only_8 (OfBigint 8) = Inr 1000000000000000000"
    by (simp_all add: env_only_8_def env_ok_def)
  have none: "fetch_jsonMeta env_only_8 (pub_7 8) [] =
      (Inr None, [Fetch ''https://gateway.lighthouse.storage/ipfs/QmBad''])"
    by (simp add: fetch_jsonMeta_cases env_only_8_def env_ok_def pub_7_def gateway_url_def)
  have c1: "getYourLands_fetchPromise env_only_8 8 [] =
     (Inr \<lparr>yourLand.landId = ''8'',
                  yourLand.status = 1,
                  yourLand.titleNumber = JString '''',
                  yourLand.landType = JString '''',
                  yourLand.username = JString '''',
                  yourLand.priceRM = JString '''',
                  yourLand.area = JString '''',
                  yourLand.geranCid = JString '''',
                  yourLand.geranUrl = '''',
                  yourLand.timestamp = JString '''',
                  yourLand.owner = ''0xSeller'',
                  yourLand.metadataCID = ''QmDoc''\<rparr>,
      [GetLand 8, Fetch ''https://gateway.lighthouse.storage/ipfs/QmBad''])"
    by (simp add: getYourLands_fetchPromise_alone[OF land] none land_7_def int_toString_789)
  have c2: "fetchAllLands_fetchPromise env_only_8 8 [] =
     (Inr \<lparr>yourLand.landId = ''8'',
                  yourLand.status = 1,
                  yourLand.titleNumber = JString '''',
                  yourLand.landType = JString '''',
                  yourLand.username = JString '''',
                  yourLand.priceRM = JString ''4000.00'',
                  yourLand.area = JString '''',
                  yourLand.geranCid = JString '''',
                  yourLand.geranUrl = '''',
                  yourLand.timestamp = JString '''',
                  yourLand.owner = ''0xSeller'',
                  yourLand.metadataCID = ''QmDoc''\<rparr>,
      [GetLand 8, LandPrices (OfBigint 8),
       Fetch ''https://gateway.lighthouse.storage/ipfs/QmBad''])"
    by (simp add: fetchAllLands_fetchPromise_alone[OF land wei] none land_7_def
          int_toString_789 price)
  show ?thesis
    by (simp add: getYourLands_def fetchAllLands_def ids map_async_def call_async_def c1 c2
          answer_def Promise_all_def Let_def)
qed

text \<open>
  \<open>getLand\<close> fails for parcel 8 and the price lookup fails for parcel 7. When the two
  \<open>getLand\<close> calls are answered first, the promise of \<open>fetchAllLands\<close> rejects with the
  error of parcel 8, whose closure rejects first; when the calls of parcel 7 are answered
  first, it rejects with the error of the price lookup.
\<close>

lemma fetchAllLands_rejects_with_first_rejection:
  "fst (fetchAllLands env_two_failures [0, 1] []) = Some (Inl (Error ''getLand failed for 8''))
   \<and> fst (fetchAllLands env_two_failures [0, 0] []) =
       Some (Inl (Error ''price lookup failed for 7''))
   \<and> fst (fetchAllLands env_two_failures [0] []) = None"
  by (simp add: fetchAllLands_def map_async_def call_async_def fetchAllLands_fetchPromise_def
        io_defs answer_def Promise_all_def Let_def env_two_failures_def env_ok_def)

subsection \<open>Re-entry\<close>

text \<open>
  Called and answered seven times with no other invocation around, an invocation has
  settled with the result of \<open>approvePurchase\<close> and has issued the calls of
  \<open>approvePurchase\<close>, in their order.
\<close>

lemma run_alone:
  "run e (Call lid b c # replicate 7 (Resume 0)) =
     \<lparr>invocations = [(invoke lid b c)\<lparr>suspended_at := Settled (fst (approvePurchase e lid b c []))\<rparr>],
      issued = snd (approvePurchase e lid b c [])\<rparr>"
proof -
  note defs = run_def issue_def pending_def resume_def invoke_def approvePurchase_def
    connectAccount_def signAuthMessage_def io_defs numeral_eq_Suc
  show ?thesis
  proof (cases "getWeb3ProviderAndSigner e")
    case (Inl x)
    then show ?thesis by (simp add: defs)
  next
    case p: (Inr w)
    show ?thesis
    proof (cases w)
      case None
      with p show ?thesis by (simp add: defs)
    next
      case s: (Some s)
      show ?thesis
      proof (cases "signer_getAddress e s")
        case (Inl x)
        with p s show ?thesis by (simp add: defs)
      next
        case a: (Inr a)
        show ?thesis
        proof (cases "contract_transferLandOwnership e lid b")
          case (Inl x)
          with p s a show ?thesis by (simp add: defs)
        next
          case t: (Inr t)
          show ?thesis
          proof (cases "tx_wait e t")
            case (Inl x)
            with p s a t show ?thesis by (simp add: defs)
          next
            case u: (Inr u)
            show ?thesis
            proof (cases "kavach_getAuthMessage e a")
              case (Inl x)
              with p s a t u show ?thesis by (simp add: defs)
            next
              case m: (Inr m)
              show ?thesis
              proof (cases m)
                case None
                with p s a t u m show ?thesis by (simp add: defs)
              next
                case msg: (Some msg)
                show ?thesis
                proof (cases "signer_signMessage e s (Some msg)")
                  case (Inl x)
                  with p s a t u m msg show ?thesis by (simp add: defs)
                next
                  case sg: (Inr sg)
                  show ?thesis
                  proof (cases "kavach_transferOwnership e a c b sg True")
                    case (Inl x)
                    with p s a t u m msg sg show ?thesis by (simp add: defs)
                  next
                    case (Inr r)
                    with p s a t u m msg sg show ?thesis by (simp add: defs Let_def)
                  qed
                qed
              qed
            qed
          qed
        qed
      qed
    qed
  qed
qed

lemma run_append: "run e (xs @ ys) = foldl (occur e) (run e xs) ys"
  by (simp add: run_def)

lemma occur_other:
  assumes "k < length (invocations st)" and "ev \<noteq> Resume k"
  shows "k < length (invocations (occur e st ev))
         \<and> invocations (occur e st ev) ! k = invocations st ! k"
proof (cases ev)
  case (Call l b c)
  with assms show ?thesis by (simp add: nth_append)
next
  case (Resume j)
  with assms show ?thesis by simp
qed

lemma occur_others:
  assumes "k < length (invocations st)" and "Resume k \<notin> set evs"
  shows "k < length (invocations (foldl (occur e) st evs))
         \<and> invocations (foldl (occur e) st evs) ! k = invocations st ! k"
  using assms
proof (induction evs arbitrary: st)
  case Nil
  then show ?case by simp
next
  case (Cons ev evs)
  then have ev: "ev \<noteq> Resume k" and evs: "Resume k \<notin> set evs" by auto
  from occur_other[OF Cons.prems(1) ev, of e]
  have 1: "k < length (invocations (occur e st ev))"
    and 2: "invocations (occur e st ev) ! k = invocations st ! k" by simp_all
  from Cons.IH[OF 1 evs] 2 show ?case by simp
qed

lemma filter_update_length:
  "k < length xs \<Longrightarrow> P y = P (xs ! k) \<Longrightarrow>
     length (filter P (xs[k := y])) = length (filter P xs)"
proof (induction xs arbitrary: k)
  case Nil
  then show ?case by simp
next
  case (Cons x xs)
  then show ?case by (cases k) auto
qed

text \<open>
  C8 (as the code has it). \<open>approvePurchase\<close> has no guard against re-entry. The module
  keeps no record of the transfers in flight, so a call for \<open>landId\<close> is accepted whatever
  has been called and answered before: it joins the transfers of \<open>landId\<close> that are in
  flight. With the wallet connected, and whatever else is called or answered in between,
  the invocation issues its own \<open>transferLandOwnership(landId, buyer)\<close> as soon as its
  two calls to the wallet are answered, and waits for the ledger among the transfers in
  flight, none of which it has rejected or removed.
\<close>

theorem approvePurchase_has_no_guard:
  assumes wallet: "getWeb3ProviderAndSigner e = Inr (Some s)"
    and addr: "signer_getAddress e s = Inr a"
    and k: "k = length (invocations (run e evs0))"
    and o1: "Resume k \<notin> set evs1"
    and o2: "Resume k \<notin> set evs2"
  shows "in_flight lid (run e (evs0 @ [Call lid buyerAddress privateCID])) =
           in_flight lid (run e evs0) @ [invoke lid buyerAddress privateCID]
       \<and> invocations
           (run e (evs0 @ Call lid buyerAddress privateCID # evs1 @ Resume k # evs2 @ [Resume k])) ! k =
           (invoke lid buyerAddress privateCID)
             \<lparr>suspended_at :=
                AwaitTransfer \<lparr>signer = s, contract = Contract (CONTRACT_ADDRESS e) s,
                               userAddress = a\<rparr>\<rparr>
       \<and> issued
           (run e (evs0 @ Call lid buyerAddress privateCID # evs1 @ Resume k # evs2 @ [Resume k])) =
           issued (run e (evs0 @ Call lid buyerAddress privateCID # evs1 @ Resume k # evs2))
             @ [TransferLandOwnership lid buyerAddress]
       \<and> length (in_flight lid
           (run e (evs0 @ Call lid buyerAddress privateCID # evs1 @ Resume k # evs2 @ [Resume k]))) =
           length (in_flight lid
             (run e (evs0 @ Call lid buyerAddress privateCID # evs1 @ Resume k # evs2)))"
proof -
  let ?i = "invoke lid buyerAddress privateCID"
  let ?w = "\<lparr>signer = s, contract = Contract (CONTRACT_ADDRESS e) s, userAddress = a\<rparr>"
  let ?A = "run e (evs0 @ [Call lid buyerAddress privateCID])"
  let ?B = "foldl (occur e) ?A evs1"
  let ?C = "occur e ?B (Resume k)"
  let ?D = "foldl (occur e) ?C evs2"
  let ?E = "occur e ?D (Resume k)"
  have c1: "in_flight lid ?A = in_flight lid (run e evs0) @ [?i]"
    by (simp add: run_def in_flight_def invoke_def)
  have A: "k < length (invocations ?A)" "invocations ?A ! k = ?i"
    using k by (simp_all add: run_append)
  from occur_others[OF A(1) o1, of e] A(2)
  have B: "k < length (invocations ?B)" "invocations ?B ! k = ?i" by simp_all
  have ri: "resume e ?i = ?i\<lparr>suspended_at := AwaitAddress s\<rparr>"
    using wallet by (simp add: resume_def invoke_def)
  from B ri have C: "k < length (invocations ?C)"
    "invocations ?C ! k = ?i\<lparr>suspended_at := AwaitAddress s\<rparr>"
    by simp_all
  from occur_others[OF C(1) o2, of e] C(2)
  have D: "k < length (invocations ?D)"
    "invocations ?D ! k = ?i\<lparr>suspended_at := AwaitAddress s\<rparr>" by simp_all
  have ra: "resume e (?i\<lparr>suspended_at := AwaitAddress s\<rparr>) = ?i\<lparr>suspended_at := AwaitTransfer ?w\<rparr>"
    using addr by (simp add: resume_def invoke_def)
  have E1: "invocations ?E ! k = ?i\<lparr>suspended_at := AwaitTransfer ?w\<rparr>"
    using D ra by simp
  have E2: "issued ?E = issued ?D @ [TransferLandOwnership lid buyerAddress]"
    using D ra by (simp add: issue_def pending_def invoke_def)
  have E3: "length (in_flight lid ?E) = length (in_flight lid ?D)"
    using D ra unfolding in_flight_def
    by (simp add: filter_update_length invoke_def)
  have D_eq: "run e (evs0 @ Call lid buyerAddress privateCID # evs1 @ Resume k # evs2) = ?D"
    by (simp add: run_def)
  have E_eq: "run e (evs0 @ Call lid buyerAddress privateCID # evs1 @ Resume k # evs2 @ [Resume k])
                = ?E"
    by (simp add: run_def)
  show ?thesis
    unfolding D_eq E_eq using c1 E1 E2 E3 by blast
qed

theorem approvePurchase_has_no_guard_witness:
  "map suspended_at (invocations (run env_ok (transfer_then_call
       @ Call ''7'' ''0xOther'' ''QmDoc'' # [] @ Resume 1 # [] @ [Resume 1]))) =
     [AwaitTransfer \<lparr>signer = JsonRpcSigner 0,
                     contract = Contract ''0xRegistry'' (JsonRpcSigner 0),
                     userAddress = ''0xSeller''\<rparr>,
      AwaitTransfer \<lparr>signer = JsonRpcSigner 0,
                     contract = Contract ''0xRegistry'' (JsonRpcSigner 0),
                     userAddress = ''0xSeller''\<rparr>]
   \<and> issued (run env_ok (transfer_then_call
       @ Call ''7'' ''0xOther'' ''QmDoc'' # [] @ Resume 1 # [] @ [Resume 1])) =
     issued (run env_ok (transfer_then_call @ Call ''7'' ''0xOther'' ''QmDoc'' # [] @ Resume 1 # []))
       @ [TransferLandOwnership ''7'' ''0xOther'']"
proof -
  have w: "getWeb3ProviderAndSigner env_ok = Inr (Some (JsonRpcSigner 0))"
    and a: "signer_getAddress env_ok (JsonRpcSigner 0) = Inr ''0xSeller''"
    by (simp_all add: env_ok_def)
  have first: "invocations (run env_ok transfer_then_call) =
      [(invoke ''7'' ''0xBuyer'' ''QmDoc'')
         \<lparr>suspended_at :=
            AwaitTransfer \<lparr>signer = JsonRpcSigner 0,
                           contract = Contract ''0xRegistry'' (JsonRpcSigner 0),
                           userAddress = ''0xSeller''\<rparr>\<rparr>]"
    by (simp add: transfer_then_call_def run_def invoke_def resume_def env_ok_def)
  then have k: "1 = length (invocations (run env_ok transfer_then_call))" by simp
  have o: "Resume 1 \<notin> set []" by simp
  from approvePurchase_has_no_guard[OF w a k o o, of "''7''" "''0xOther''" "''QmDoc''"]
  have 2: "invocations (run env_ok (transfer_then_call
       @ Call ''7'' ''0xOther'' ''QmDoc'' # [] @ Resume 1 # [] @ [Resume 1])) ! 1 =
           (invoke ''7'' ''0xOther'' ''QmDoc'')
             \<lparr>suspended_at :=
                AwaitTransfer \<lparr>signer = JsonRpcSigner 0,
                               contract = Contract (CONTRACT_ADDRESS env_ok) (JsonRpcSigner 0),
                               userAddress = ''0xSeller''\<rparr>\<rparr>"
    and 3: "issued (run env_ok (transfer_then_call
       @ Call ''7'' ''0xOther'' ''QmDoc'' # [] @ Resume 1 # [] @ [Resume 1])) =
     issued (run env_ok (transfer_then_call @ Call ''7'' ''0xOther'' ''QmDoc'' # [] @ Resume 1 # []))
       @ [TransferLandOwnership ''7'' ''0xOther'']"
    by blast+
  have len: "length (invocations (run env_ok (transfer_then_call
       @ Call ''7'' ''0xOther'' ''QmDoc'' # [] @ Resume 1 # [] @ [Resume 1]))) = 2"
    and 0: "invocations (run env_ok (transfer_then_call
       @ Call ''7'' ''0xOther'' ''QmDoc'' # [] @ Resume 1 # [] @ [Resume 1])) ! 0 =
      (invoke ''7'' ''0xBuyer'' ''QmDoc'')
         \<lparr>suspended_at :=
            AwaitTransfer \<lparr>signer = JsonRpcSigner 0,
                           contract = Contract ''0xRegistry'' (JsonRpcSigner 0),
                           userAddress = ''0xSeller''\<rparr>\<rparr>"
    using first by (simp_all add: run_append nth_list_update)
  have "map suspended_at (invocations (run env_ok (transfer_then_call
       @ Call ''7'' ''0xOther'' ''QmDoc'' # [] @ Resume 1 # [] @ [Resume 1]))) =
     [suspended_at (invocations (run env_ok (transfer_then_call
       @ Call ''7'' ''0xOther'' ''QmDoc'' # [] @ Resume 1 # [] @ [Resume 1])) ! 0),
      suspended_at (invocations (run env_ok (transfer_then_call
       @ Call ''7'' ''0xOther'' ''QmDoc'' # [] @ Resume 1 # [] @ [Resume 1])) ! 1)]"
    using len by (auto simp: list_eq_iff_nth_eq less_Suc_eq_0_disj numeral_2_eq_2)
  then show ?thesis
    using 0 2 3 by (simp add: env_ok_def)
qed

text \<open>
  Two calls of \<open>approvePurchase\<close> for parcel 7: after two answers each, both are in
  flight, and each has issued its own \<open>transferLandOwnership\<close> and waits for the ledger.
\<close>

theorem two_transfers_in_flight:
  "map inv_landId (in_flight ''7'' (run env_ok two_transfers)) = [''7'', ''7'']
   \<and> issued (run env_ok two_transfers) =
       [GetWeb3ProviderAndSigner, GetWeb3ProviderAndSigner,
        GetAddress (JsonRpcSigner 0), GetAddress (JsonRpcSigner 0),
        TransferLandOwnership ''7'' ''0xBuyer'', TransferLandOwnership ''7'' ''0xBuyer'']"
  by (simp add: two_transfers_def run_def in_flight_def invoke_def resume_def pending_def
        issue_def env_ok_def)

subsection \<open>Listing metadata and the price lookup\<close>

text \<open>
  C9. Whatever the title number, land type, price, file and user name, every metadata
  document that \<open>listingLand\<close> uploads has the \<open>area\<close> "100 m2", and its \<open>geranCid\<close>
  is the first hash that the encrypted upload of the file returned.
\<close>

theorem listingLand_metadata:
  "\<forall>m k. Upload m k \<in> set (snd (listingLand e t l p f u [])) \<longrightarrow>
     map_of m ''area'' = Some ''100 m2''
     \<and> (\<exists>a sg g gs. UploadEncrypted f (LIGHTHOUSE_API_KEY e) a sg
                         \<in> set (snd (listingLand e t l p f u []))
                   \<and> lighthouse_uploadEncrypted e f (LIGHTHOUSE_API_KEY e) a sg = Inr (g # gs)
                   \<and> map_of m ''geranCid'' = Some g)"
  by (auto simp: listingLand_def connectAccount_def io_defs Let_def
           split: sum.splits option.splits list.splits)

theorem listingLand_metadata_witness:
  "Upload [(''titleNumber'', ''GRN 7''), (''landType'', ''Residential''),
           (''username'', ''alice''), (''area'', ''100 m2''), (''geranCid'', ''QmGeran''),
           (''timestamp'', ''2025-06-01T00:00:00.000Z'')] ''key''
     \<in> set (snd (listingLand env_ok ''GRN 7'' ''Residential'' ''4000'' ''deed.pdf'' ''alice'' []))
   \<and> (\<exists>a sg g gs.
         lighthouse_uploadEncrypted env_ok ''deed.pdf'' (LIGHTHOUSE_API_KEY env_ok) a sg
           = Inr (g # gs)
         \<and> map_of [(''titleNumber'', ''GRN 7''), (''landType'', ''Residential''),
                    (''username'', ''alice''), (''area'', ''100 m2''), (''geranCid'', ''QmGeran''),
                    (''timestamp'', ''2025-06-01T00:00:00.000Z'')] ''geranCid'' = Some g)"
proof -
  let ?m = "[(''titleNumber'', ''GRN 7''), (''landType'', ''Residential''),
           (''username'', ''alice''), (''area'', ''100 m2''), (''geranCid'', ''QmGeran''),
           (''timestamp'', ''2025-06-01T00:00:00.000Z'')]"
  have mem: "Upload ?m ''key''
     \<in> set (snd (listingLand env_ok ''GRN 7'' ''Residential'' ''4000'' ''deed.pdf'' ''alice'' []))"
    by (simp add: listingLand_def connectAccount_def io_defs example_defs div_4000 Let_def
          example_toString_1 del: div_RM_PER_ETH.simps example_toString.simps)
  from listingLand_metadata[rule_format, OF mem] mem show ?thesis
    by blast
qed

text \<open>
  C10 (as the code has it). \<open>fetchLandPrice\<close> never rejects: it resolves with a text for
  every identifier and every behaviour of the wallet and the ledger, and the text is "0"
  whenever the provider cannot be created, the signer cannot be obtained or the price
  lookup fails. When the lookup succeeds the text is what \<open>formatEther\<close> writes for the
  price, so it is "0" only if \<open>formatEther\<close> writes "0" for that price.
\<close>

theorem fetchLandPrice_never_raises:
  "(\<exists>s. fst (fetchLandPrice e lid tr) = Inr s)
   \<and> ((newBrowserProvider e = Inl x
        \<or> (\<exists>p. newBrowserProvider e = Inr p
              \<and> (provider_getSigner e p = Inl x
                 \<or> (\<exists>s. provider_getSigner e p = Inr s
                       \<and> contract_landPrices e (OfNumber lid) = Inl x))))
       \<longrightarrow> fst (fetchLandPrice e lid tr) = Inr ''0'')
   \<and> (\<forall>p s w. newBrowserProvider e = Inr p \<and> provider_getSigner e p = Inr s
                \<and> contract_landPrices e (OfNumber lid) = Inr w
       \<longrightarrow> fst (fetchLandPrice e lid tr) = Inr (formatEther e w)
           \<and> (fst (fetchLandPrice e lid tr) = Inr ''0'' \<longleftrightarrow> formatEther e w = ''0''))"
  by (auto simp: fetchLandPrice_def io_defs split: sum.splits)

theorem fetchLandPrice_never_raises_witness:
  "fst (fetchLandPrice env_no_provider (Finite 7) []) = Inr ''0''
   \<and> fst (fetchLandPrice env_lookup_fails (Finite 7) []) = Inr ''0''
   \<and> fst (fetchLandPrice env_ok (Finite 7) []) = Inr ''1.0''"
proof -
  have a: "newBrowserProvider env_no_provider = Inl (Error ''invalid EIP-1193 provider'')"
    by (simp add: env_no_provider_def)
  have b: "newBrowserProvider env_lookup_fails = Inr (BrowserProvider 0)"
    "provider_getSigner env_lookup_fails (BrowserProvider 0) = Inr (JsonRpcSigner 0)"
    "contract_landPrices env_lookup_fails (OfNumber (Finite 7)) = Inl (Error ''missing revert data'')"
    by (simp_all add: env_lookup_fails_def env_ok_def)
  have c: "newBrowserProvider env_ok = Inr (BrowserProvider 0)"
    "provider_getSigner env_ok (BrowserProvider 0) = Inr (JsonRpcSigner 0)"
    "contract_landPrices env_ok (OfNumber (Finite 7)) = Inr 1000000000000000000"
    "formatEther env_ok 1000000000000000000 = ''1.0''"
    by (simp_all add: env_ok_def example_formatEther_def)
  from fetchLandPrice_never_raises
         [of env_no_provider "Finite 7" "[]" "Error ''invalid EIP-1193 provider''"] a
  have "fst (fetchLandPrice env_no_provider (Finite 7) []) = Inr ''0''"
    by blast
  moreover
  from fetchLandPrice_never_raises
         [of env_lookup_fails "Finite 7" "[]" "Error ''missing revert data''"] b
  have "fst (fetchLandPrice env_lookup_fails (Finite 7) []) = Inr ''0''"
    by blast
  moreover
  from fetchLandPrice_never_raises[of env_ok "Finite 7" "[]"] c
  have "fst (fetchLandPrice env_ok (Finite 7) []) = Inr ''1.0''"
    by metis
  ultimately show ?thesis by blast
qed

text \<open>
  The ledger holds the price 0 for parcel 7: the text is "0.0", which is what
  \<open>formatEther\<close> of ethers writes for 0, and not the "0" of a lookup that fails.
\<close>

theorem fetchLandPrice_zero_price:
  "fetchLandPrice env_zero_price (Finite 7) [] =
     (Inr ''0.0'', [GetSigner (BrowserProvider 0), LandPrices (OfNumber (Finite 7))])
   \<and> fetchLandPrice env_lookup_fails (Finite 7) [] =
     (Inr ''0'', [GetSigner (BrowserProvider 0), LandPrices (OfNumber (Finite 7))])"
  by (simp add: fetchLandPrice_def io_defs env_zero_price_def env_lookup_fails_def env_ok_def
        example_formatEther_def)

end
